theory Spec2Isabelle
  imports Complex_Main "HOL-Library.Sublist" "HOL-Library.List_Lexorder"
begin

section \<open>Strings\<close>

text \<open>
  A Python \<open>str\<close> is a sequence of Unicode code points, so a string is a list of code
  points (natural numbers): slices such as \<open>s[:50]\<close> count code points, and the emoji that
  the application puts in front of its labels are single elements. String literals of the
  source are written \<open>u ''...''\<close>, code points outside ASCII are given by number.
\<close>

type_synonym ustring = "nat list"

definition u :: "string \<Rightarrow> ustring" where
  "u s = map of_char s"

text \<open>\<open>sub in s\<close>, \<open>s.startswith(p)\<close> and \<open>sep.join(xs)\<close>.\<close>

definition py_in :: "ustring \<Rightarrow> ustring \<Rightarrow> bool" where
  "py_in sub s = sublist sub s"

definition startswith :: "ustring \<Rightarrow> ustring \<Rightarrow> bool" where
  "startswith s p = prefix p s"

fun join :: "ustring \<Rightarrow> ustring list \<Rightarrow> ustring" where
  "join sep [] = []"
| "join sep [x] = x"
| "join sep (x # y # ys) = x @ sep @ join sep (y # ys)"

text \<open>\<open>str(n)\<close> and \<open>f"{n}"\<close> for an integer: decimal digits, a minus sign when negative.\<close>

fun digits :: "nat \<Rightarrow> ustring" where
  "digits n = (if n < 10 then [48 + n] else digits (n div 10) @ [48 + n mod 10])"

definition str_of_int :: "int \<Rightarrow> ustring" where
  "str_of_int i = (if i < 0 then 45 # digits (nat (- i)) else digits (nat i))"

definition str_of_nat :: "nat \<Rightarrow> ustring" where
  "str_of_nat n = str_of_int (int n)"

text \<open>
  Whitespace as \<open>\s\<close> of a \<open>str\<close> pattern and \<open>str.split()\<close> see it: the code points for
  which \<open>str.isspace\<close> holds.
\<close>

definition is_space :: "nat \<Rightarrow> bool" where
  "is_space c \<longleftrightarrow>
     (9 \<le> c \<and> c \<le> 13) \<or> (28 \<le> c \<and> c \<le> 32) \<or> c = 133 \<or> c = 160 \<or> c = 5760 \<or>
     (8192 \<le> c \<and> c \<le> 8202) \<or> c = 8232 \<or> c = 8233 \<or> c = 8239 \<or> c = 8287 \<or> c = 12288"

definition nl :: ustring where
  "nl = [10]"

section \<open>The Python library\<close>

text \<open>
  The functions of the standard library whose result depends on the Unicode tables, on the
  local time zone or on the version of the library are parameters of the model:
  \<open>str.lower\<close>, \<open>urllib.parse.urlparse\<close> (which raises \<open>ValueError\<close> on some inputs: \<open>Inl\<close>
  its message), \<open>datetime.strftime\<close>, the class \<open>\w\<close> of the regular-expression engine and
  its case-insensitive comparison of a pattern character with a text character.
\<close>

record parse_result =
  url_scheme :: ustring
  url_netloc :: ustring
  url_path :: ustring

record pylib =
  py_lower :: "ustring \<Rightarrow> ustring"
  py_urlparse :: "ustring \<Rightarrow> ustring + parse_result"
  py_strftime :: "ustring \<Rightarrow> real \<Rightarrow> ustring"
  re_word :: "nat \<Rightarrow> bool"
  re_ci :: "nat \<Rightarrow> nat \<Rightarrow> bool"

section \<open>The outside world\<close>

text \<open>
  What the network, the language-model API, the clock and the database engine answer is
  given by an environment. Each answer may depend on how many requests of its kind were
  made before, so that the same URL can answer differently the second time.
\<close>

datatype outcome = Response int | HTTPError int | OtherException ustring

record llm_request =
  rq_model :: ustring
  rq_messages :: "(ustring \<times> ustring) list"
  rq_max_tokens :: nat
  rq_temperature :: real

record env =
  urlopen :: "nat \<Rightarrow> ustring \<Rightarrow> outcome"
  requests_get :: "nat \<Rightarrow> ustring \<Rightarrow> ustring + ustring"
  chat_create :: "nat \<Rightarrow> llm_request \<Rightarrow> ustring + ustring"
  clock :: "nat \<Rightarrow> real"
  db_raises :: "nat \<Rightarrow> ustring option"

text \<open>
  The report of an agent of the first phase is a dictionary with the key \<open>agent\<close> and
  either \<open>findings\<close> or \<open>error\<close>. The later agents return a dictionary with \<open>agent\<close> and
  \<open>review\<close> (with \<open>agent_reports\<close>), \<open>improved_draft\<close> or \<open>guidance\<close>, or with \<open>agent\<close> and
  \<open>error\<close>; the orchestrator's own failure is the dictionary with the key \<open>error\<close> alone.
\<close>

datatype report = Findings ustring ustring | Failed ustring ustring

datatype result =
    Review ustring ustring "report list"
  | Improved ustring ustring
  | Guidance ustring ustring
  | AgentError ustring ustring
  | OrchestratorError ustring

record cache_entry =
  ce_content :: ustring
  ce_timestamp :: real

record review_row =
  row_id :: nat
  row_timestamp :: ustring
  row_document_type :: ustring
  row_document_title :: ustring
  row_original_text :: ustring
  row_review_notes :: ustring
  row_review_status :: ustring

text \<open>
  The state of the process: the module-level \<open>DOCS_CACHE\<close>, the entries of
  \<open>st.session_state\<close> the code uses (the fields \<open>system_logs\<close> and \<open>ss_...\<close>), the table \<open>editorial_reviews\<close>, and the trace of what
  was asked of the outside (\<open>http_calls\<close>: the URLs requested, \<open>llm_calls\<close>: the completion
  requests, \<open>ticks\<close>: the clock readings, \<open>db_ops\<close>: the database operations).
\<close>

record world =
  docs_cache :: "ustring \<rightharpoonup> cache_entry"
  system_logs :: "ustring list"
  http_calls :: "ustring list"
  llm_calls :: "llm_request list"
  ticks :: nat
  db_ops :: nat
  db_rows :: "review_row list"
  db_next_id :: nat
  ui_errors :: "ustring list"
  ss_messages :: "(ustring \<times> ustring) list"
  ss_last_review :: "ustring option"
  ss_last_document :: "ustring option"
  ss_agent_reports :: "report list option"
  ss_document_metadata :: "(ustring \<rightharpoonup> ustring) option"

definition log_system_message :: "pylib \<Rightarrow> env \<Rightarrow> ustring \<Rightarrow> world \<Rightarrow> world" where
  "log_system_message L E message w =
     (let timestamp = py_strftime L (u ''%H:%M:%S'') (clock E (ticks w))
      in w\<lparr>system_logs := system_logs w @ [u ''['' @ timestamp @ u ''] '' @ message],
            ticks := Suc (ticks w)\<rparr>)"

section \<open>Link Validator (main.py)\<close>

subsection \<open>Extracting the URLs\<close>

text \<open>
  \<open>re.findall(r'https?://[^\s\)\]\}">]+', document_text)\<close>: the matches from left to
  right, each search starting where the previous match ended. The class takes the longest
  run, and giving back the optional \<open>s\<close> never helps (what follows is then \<open>s\<close>, not \<open>:\<close>).
\<close>

definition url_char :: "nat \<Rightarrow> bool" where
  "url_char c \<longleftrightarrow> \<not> is_space c \<and> c \<noteq> 41 \<and> c \<noteq> 93 \<and> c \<noteq> 125 \<and> c \<noteq> 34 \<and> c \<noteq> 62"

definition url_match_here :: "ustring \<Rightarrow> (ustring \<times> ustring) option" where
  "url_match_here s =
     (if prefix (u ''http'') s then
        let r = drop 4 s;
            opt_s = (if prefix (u ''s'') r then u ''s'' else []);
            r' = drop (length opt_s) r
        in if prefix (u ''://'') r' then
             let body = takeWhile url_char (drop 3 r');
                 rest = dropWhile url_char (drop 3 r')
             in if body \<noteq> [] then Some (u ''http'' @ opt_s @ u ''://'' @ body, rest) else None
           else None
      else None)"

lemma url_match_here_shorter:
  assumes "url_match_here s = Some (m, rest)"
  shows "length rest < length s"
proof -
  define r where "r = drop 4 s"
  define r' where "r' = drop (length (if prefix (u ''s'') r then u ''s'' else [])) r"
  from assms have p: "prefix (u ''http'') s"
    and rest: "rest = dropWhile url_char (drop 3 r')"
    by (auto simp: url_match_here_def r_def r'_def Let_def split: if_splits)
  have "length rest \<le> length (drop 3 r')"
    unfolding rest by (rule length_dropWhile_le)
  also have "\<dots> \<le> length r'" by simp
  also have "\<dots> \<le> length r" by (simp add: r'_def)
  also have "\<dots> < length s"
    using p by (auto simp: r_def prefix_def u_def)
  finally show ?thesis .
qed

function findall_urls :: "ustring \<Rightarrow> ustring list" where
  "findall_urls [] = []"
| "findall_urls (c # cs) =
     (case url_match_here (c # cs) of
        Some (m, rest) \<Rightarrow> m # findall_urls rest
      | None \<Rightarrow> findall_urls cs)"
  by pat_completeness auto
termination
  by (relation "measure length") (auto dest: url_match_here_shorter)

subsection \<open>Checking one link\<close>

datatype code_val = Code int | ERROR

record link_result =
  lr_url :: ustring
  lr_status :: ustring
  lr_code :: code_val
  lr_suggestion :: "ustring option"

text \<open>
  \<open>suggest_404_fixes\<close>. An exception of \<open>urlparse\<close> is not caught here: the result is
  \<open>Inl\<close> its message.
\<close>

definition suggest_404_fixes :: "pylib \<Rightarrow> ustring \<Rightarrow> ustring + ustring" where
  "suggest_404_fixes L url =
     (case py_urlparse L url of
        Inl e \<Rightarrow> Inl e
      | Inr parsed \<Rightarrow>
          let domain = url_netloc parsed;
              path = url_path parsed;
              suggestions =
                (if py_in (u ''github.com'') domain then
                   (if py_in (u ''/blob/'') path then
                      [8226 # u '' Repository may have moved - check if it was renamed or transferred'',
                       8226 # u '' Branch may have changed (master '' @ [8594] @ u '' main)'']
                    else [])
                   @ [8226 # u '' Try archive: https://web.archive.org/web/'' @ url]
                 else if list_ex (\<lambda>doc_site. py_in doc_site domain)
                           [u ''docs.'', u ''documentation.'', u ''wiki.''] then
                   [8226 # u '' Documentation may have been restructured - check site'' @ [39] @ u ''s search'',
                    8226 # u '' Try removing version numbers from URL path'']
                 else if py_in (u ''/api/'') path \<or>
                         list_ex (\<lambda>api_term. py_in api_term path)
                           [u ''/v1/'', u ''/v2/'', u ''/rest/''] then
                   [8226 # u '' API version may have changed - check for newer versions'',
                    8226 # u '' Endpoint may have been deprecated - check API changelog'']
                 else [])
                @ [8226 # u '' Check site manually: '' @ url_scheme parsed @ u ''://'' @ domain,
                   8226 # u '' Search archive: https://web.archive.org/web/'' @ url]
          in Inr (if suggestions \<noteq> [] then join nl suggestions
                  else u ''Consider removing or finding an alternative''))"

definition suggest_error_fixes :: "pylib \<Rightarrow> ustring \<Rightarrow> ustring \<Rightarrow> ustring" where
  "suggest_error_fixes L url error_msg =
     (if py_in (u ''SSL'') error_msg \<or> py_in (u ''certificate'') (py_lower L error_msg) then
        u ''SSL certificate issue - site may be misconfigured or unsafe''
      else if py_in (u ''Name or service not known'') error_msg \<or> py_in (u ''DNS'') error_msg then
        u ''Domain no longer exists - find alternative or remove link''
      else if py_in (u ''Connection refused'') error_msg then
        u ''Server is down - check if this is temporary or permanent''
      else u ''Network error - verify URL is correct'')"

text \<open>
  \<open>check_single_link\<close>, given what \<open>urlopen\<close> did: it returned a response with a status,
  raised \<open>HTTPError\<close> with a code, or raised another exception with a message. The result
  is \<open>Inl\<close> when an exception leaves the function: one raised inside the handler of
  \<open>HTTPError\<close> is not caught by the handler of \<open>Exception\<close> beside it. In CPython the
  constructor of \<open>Request\<close>, inside the \<open>try\<close>, parses the URL itself, so a URL that
  \<open>urlparse\<close> rejects gives the outcome of another exception and an \<open>HTTPError\<close> comes only
  for a URL that \<open>urlparse\<close> accepts; the model allows more outcomes than that and the
  properties below do not depend on it.
\<close>

definition check_single_link :: "pylib \<Rightarrow> ustring \<Rightarrow> outcome \<Rightarrow> ustring + link_result" where
  "check_single_link L url out =
     (case out of
        Response status \<Rightarrow>
          if status = 200 then
            Inr \<lparr>lr_url = url, lr_status = 9989 # u '' Working'', lr_code = Code status,
                 lr_suggestion = None\<rparr>
          else
            Inr \<lparr>lr_url = url, lr_status = [9888, 65039] @ u '' HTTP '' @ str_of_int status,
                 lr_code = Code status,
                 lr_suggestion = Some (u ''Check if this is the intended behavior'')\<rparr>
      | HTTPError code \<Rightarrow>
          if code = 404 then
            (case suggest_404_fixes L url of
               Inl e \<Rightarrow> Inl e
             | Inr suggestions \<Rightarrow>
                 Inr \<lparr>lr_url = url, lr_status = 10060 # u '' Not Found (404)'', lr_code = Code 404,
                      lr_suggestion = Some suggestions\<rparr>)
          else if code = 401 \<or> code = 403 then
            Inr \<lparr>lr_url = url,
                 lr_status = 128274 # u '' Access Restricted ('' @ str_of_int code @ u '')'',
                 lr_code = Code code,
                 lr_suggestion =
                   Some (u ''Verify if authentication is required or if link should be public'')\<rparr>
          else
            Inr \<lparr>lr_url = url, lr_status = 10060 # u '' HTTP '' @ str_of_int code,
                 lr_code = Code code,
                 lr_suggestion = Some (u ''Check server status or find alternative'')\<rparr>
      | OtherException msg \<Rightarrow>
          Inr \<lparr>lr_url = url, lr_status = 10060 # u '' Error: '' @ take 50 msg, lr_code = ERROR,
               lr_suggestion = Some (suggest_error_fixes L url msg)\<rparr>)"

subsection \<open>The report\<close>

text \<open>
  The loop over the URLs. Each check asks the network once (the request is recorded in
  \<open>http_calls\<close>); an exception that leaves \<open>check_single_link\<close> ends the loop.
\<close>

fun check_all_links ::
  "pylib \<Rightarrow> env \<Rightarrow> ustring list \<Rightarrow> link_result list \<Rightarrow> link_result list \<Rightarrow> world \<Rightarrow>
   (ustring + link_result list \<times> link_result list) \<times> world" where
  "check_all_links L E [] working_links issues w = (Inr (working_links, issues), w)"
| "check_all_links L E (url # urls) working_links issues w =
     (let out = urlopen E (length (http_calls w)) url;
          w1 = w\<lparr>http_calls := http_calls w @ [url]\<rparr>
      in case check_single_link L url out of
           Inl e \<Rightarrow> (Inl e, w1)
         | Inr result \<Rightarrow>
             if startswith (lr_status result) [9989]
             then check_all_links L E urls (working_links @ [result]) issues w1
             else check_all_links L E urls working_links (issues @ [result]) w1)"

definition format_issue :: "link_result \<Rightarrow> ustring" where
  "format_issue issue =
     u ''**'' @ lr_status issue @ u ''**'' @ nl @
     u ''URL: '' @ [96] @ lr_url issue @ [96] @ nl @
     (case lr_suggestion issue of
        None \<Rightarrow> []
      | Some s \<Rightarrow>
          if s \<noteq> [] then 128161 # u '' **Suggestion:** '' @ s @ nl else []) @
     nl"

definition format_findings :: "nat \<Rightarrow> link_result list \<Rightarrow> link_result list \<Rightarrow> ustring" where
  "format_findings n working_links issues =
     u ''**Link Validation Report** ('' @ str_of_nat n @ u '' links checked)'' @ nl @ nl @
     (if working_links \<noteq> [] then
        9989 # u '' **'' @ str_of_nat (length working_links) @
        u '' working links** - No action needed'' @ nl @ nl
      else []) @
     (if issues \<noteq> [] then
        [9888, 65039] @ u '' **'' @ str_of_nat (length issues) @ u '' links need attention:**'' @
        nl @ nl @ concat (map format_issue issues)
      else []) @
     (if issues = [] then 127881 # u '' **All links are working perfectly!**'' else [])"

definition no_links_found :: ustring where
  "no_links_found = 9989 # u '' **No external links found** - Nothing to validate.''"

definition run_link_validation ::
  "pylib \<Rightarrow> env \<Rightarrow> ustring \<Rightarrow> (ustring \<rightharpoonup> ustring) \<Rightarrow> world \<Rightarrow> report \<times> world" where
  "run_link_validation L E document_text doc_metadata w =
     (let w0 = log_system_message L E (u ''Link Validator: Starting link validation'') w;
          urls = findall_urls document_text
      in if urls = [] then
           (Findings (u ''Link Validator'') no_links_found,
            log_system_message L E (u ''Link Validator: No external links found'') w0)
         else
           let w1 = log_system_message L E
                      (u ''Link Validator: Found '' @ str_of_nat (length urls) @
                       u '' links to check'') w0
           in case check_all_links L E urls [] [] w1 of
                (Inr (working_links, issues), w2) \<Rightarrow>
                  (Findings (u ''Link Validator'')
                     (format_findings (length urls) working_links issues),
                   log_system_message L E
                     (u ''Link Validator: Completed - '' @ str_of_nat (length working_links) @
                      u '' working, '' @ str_of_nat (length issues) @ u '' issues'') w2)
              | (Inl e, w2) \<Rightarrow>
                  (Failed (u ''Link Validator'') (u ''Link validation failed: '' @ e),
                   log_system_message L E (u ''Link Validator: Error - '' @ e) w2))"

section \<open>An instance of the library and of the environment\<close>

text \<open>
  For evaluation at concrete inputs: the library on ASCII text, in a process whose local
  time zone is UTC. \<open>urlparse_ascii\<close> is \<open>urlparse\<close> on an ASCII URL that starts with
  \<open>http://\<close> or \<open>https://\<close>, as every URL extracted above does: the host part ends at the
  first of \<open>/ ? #\<close>, the path at the first of \<open>? #\<close>, the parameters after \<open>;\<close> in the last
  segment of the path are split off, and a bracket without its partner in the host part
  raises \<open>ValueError\<close>.
\<close>

definition ascii_lower :: "ustring \<Rightarrow> ustring" where
  "ascii_lower s = map (\<lambda>c. if 65 \<le> c \<and> c \<le> 90 then c + 32 else c) s"

definition ascii_word :: "nat \<Rightarrow> bool" where
  "ascii_word c \<longleftrightarrow> (48 \<le> c \<and> c \<le> 57) \<or> (65 \<le> c \<and> c \<le> 90) \<or> (97 \<le> c \<and> c \<le> 122) \<or> c = 95"

definition urlparse_ascii :: "ustring \<Rightarrow> ustring + parse_result" where
  "urlparse_ascii url =
     (let (sch, rest) =
            (if prefix (u ''https://'') url then (u ''https'', drop 8 url)
             else if prefix (u ''http://'') url then (u ''http'', drop 7 url)
             else ([], url));
          delim = (\<lambda>c. c = 47 \<or> c = 63 \<or> c = 35);
          host = (if sch = [] then [] else takeWhile (\<lambda>c. \<not> delim c) rest);
          after = (if sch = [] then rest else dropWhile (\<lambda>c. \<not> delim c) rest);
          path0 = takeWhile (\<lambda>c. c \<noteq> 63 \<and> c \<noteq> 35) after;
          last_segment = rev (takeWhile (\<lambda>c. c \<noteq> 47) (rev path0));
          path1 = take (length path0 - length last_segment) path0 @
                  takeWhile (\<lambda>c. c \<noteq> 59) last_segment
      in if (91 \<in> set host) \<noteq> (93 \<in> set host) then Inl (u ''Invalid IPv6 URL'')
         else Inr \<lparr>url_scheme = sch, url_netloc = host, url_path = path1\<rparr>)"

text \<open>
  \<open>strftime\<close> for the directives the code uses (\<open>%Y %m %d %H %M %S\<close>), from the seconds
  since the epoch. The date is computed from the day number in the proleptic Gregorian
  calendar.
\<close>

definition pad :: "nat \<Rightarrow> int \<Rightarrow> ustring" where
  "pad n i = (let d = str_of_int i in replicate (n - length d) 48 @ d)"

definition civil_from_days :: "int \<Rightarrow> int \<times> int \<times> int" where
  "civil_from_days z0 =
     (let z = z0 + 719468;
          era = z div 146097;
          doe = z - era * 146097;
          yoe = (doe - doe div 1460 + doe div 36524 - doe div 146096) div 365;
          doy = doe - (365 * yoe + yoe div 4 - yoe div 100);
          mp = (5 * doy + 2) div 153;
          d = doy - (153 * mp + 2) div 5 + 1;
          m = (if mp < 10 then mp + 3 else mp - 9);
          y = yoe + era * 400 + (if m \<le> 2 then 1 else 0)
      in (y, m, d))"

fun strftime_utc :: "ustring \<Rightarrow> real \<Rightarrow> ustring" where
  "strftime_utc [] t = []"
| "strftime_utc [c] t = [c]"
| "strftime_utc (c # d # fmt) t =
     (if c = 37 then
        (let s = \<lfloor>t\<rfloor>;
             sod = s mod 86400;
             (y, m, dd) = civil_from_days (s div 86400)
         in (if d = 89 then pad 4 y
             else if d = 109 then pad 2 m
             else if d = 100 then pad 2 dd
             else if d = 72 then pad 2 (sod div 3600)
             else if d = 77 then pad 2 (sod mod 3600 div 60)
             else if d = 83 then pad 2 (sod mod 60)
             else [c, d]) @ strftime_utc fmt t)
      else c # strftime_utc (d # fmt) t)"

declare strftime_utc.simps [simp del]

definition ascii_lib :: pylib where
  "ascii_lib =
     \<lparr>py_lower = ascii_lower, py_urlparse = urlparse_ascii, py_strftime = strftime_utc,
      re_word = ascii_word, re_ci = (\<lambda>p c. ascii_lower [p] = ascii_lower [c])\<rparr>"

text \<open>
  An environment in which every link answers 200, every documentation fetch and every
  completion request succeeds with a fixed text, the clock advances by one second at each
  reading, and the database never fails; and the state of a fresh process.
\<close>

definition quiet_env :: env where
  "quiet_env =
     \<lparr>urlopen = (\<lambda>k url. Response 200),
      requests_get = (\<lambda>k url. Inr (u ''# Guide'')),
      chat_create = (\<lambda>k rq. Inr (u ''Looks fine.'')),
      clock = (\<lambda>k. 1700000000 + real k),
      db_raises = (\<lambda>k. None)\<rparr>"

definition fresh_world :: world where
  "fresh_world =
     \<lparr>docs_cache = Map.empty, system_logs = [], http_calls = [], llm_calls = [], ticks = 0,
      db_ops = 0, db_rows = [], db_next_id = 1, ui_errors = [], ss_messages = [],
      ss_last_review = None, ss_last_document = None, ss_agent_reports = None,
      ss_document_metadata = None\<rparr>"

section \<open>Properties of the Link Validator\<close>

subsection \<open>What the extraction finds\<close>

text \<open>
  The pattern read as a language: \<open>http\<close>, an optional \<open>s\<close>, \<open>://\<close> and one character or more
  outside the class of whitespace and \<open>) ] } " >\<close>.
\<close>

definition url_pattern :: "ustring \<Rightarrow> bool" where
  "url_pattern s \<longleftrightarrow>
     (prefix (u ''http://'') s \<and> drop 7 s \<noteq> [] \<and> list_all url_char (drop 7 s)) \<or>
     (prefix (u ''https://'') s \<and> drop 8 s \<noteq> [] \<and> list_all url_char (drop 8 s))"

lemma url_match_here_http:
  "url_match_here (u ''http://'' @ t) =
     (if takeWhile url_char t \<noteq> [] then Some (u ''http://'' @ takeWhile url_char t, dropWhile url_char t)
      else None)"
  by (simp add: url_match_here_def u_def Let_def)

lemma url_match_here_https:
  "url_match_here (u ''https://'' @ t) =
     (if takeWhile url_char t \<noteq> [] then Some (u ''https://'' @ takeWhile url_char t, dropWhile url_char t)
      else None)"
  by (simp add: url_match_here_def u_def Let_def)

lemma url_match_here_other:
  "\<not> prefix (u ''http://'') s \<Longrightarrow> \<not> prefix (u ''https://'') s \<Longrightarrow> url_match_here s = None"
  by (auto simp: url_match_here_def u_def Let_def prefix_def)

lemma url_match_here_Some:
  assumes "url_match_here s = Some (m, rest)"
  shows "s = m @ rest \<and> url_pattern m"
proof -
  consider t where "s = u ''http://'' @ t" | t where "s = u ''https://'' @ t"
    | "\<not> prefix (u ''http://'') s" "\<not> prefix (u ''https://'') s"
    by (auto simp: prefix_def)
  then show ?thesis
  proof cases
    case 1
    with assms have m: "m = u ''http://'' @ takeWhile url_char t" and r: "rest = dropWhile url_char t"
      and ne: "takeWhile url_char t \<noteq> []"
      by (auto simp: url_match_here_http split: if_splits)
    have "list_all url_char (takeWhile url_char t)"
      by (simp add: list_all_iff) (meson set_takeWhileD)
    with 1 m r ne show ?thesis by (simp add: url_pattern_def u_def)
  next
    case 2
    with assms have m: "m = u ''https://'' @ takeWhile url_char t" and r: "rest = dropWhile url_char t"
      and ne: "takeWhile url_char t \<noteq> []"
      by (auto simp: url_match_here_https split: if_splits)
    have "list_all url_char (takeWhile url_char t)"
      by (simp add: list_all_iff) (meson set_takeWhileD)
    with 2 m r ne show ?thesis by (simp add: url_pattern_def u_def)
  next
    case 3
    with assms show ?thesis by (simp add: url_match_here_other)
  qed
qed

lemma url_pattern_match_here:
  assumes "url_pattern s"
  shows "url_match_here (s @ ss) \<noteq> None"
proof -
  from assms consider b where "s = u ''http://'' @ b" "b \<noteq> []" "list_all url_char b"
    | b where "s = u ''https://'' @ b" "b \<noteq> []" "list_all url_char b"
    by (auto simp: url_pattern_def prefix_def u_def)
  then show ?thesis
  proof cases
    case 1
    then have "takeWhile url_char (b @ ss) \<noteq> []"
      by (cases b) (auto simp: list_all_iff)
    with 1 show ?thesis by (simp add: url_match_here_http)
  next
    case 2
    then have "takeWhile url_char (b @ ss) \<noteq> []"
      by (cases b) (auto simp: list_all_iff)
    with 2 show ?thesis by (simp add: url_match_here_https)
  qed
qed

lemma findall_urls_empty_suffixes:
  "findall_urls t = [] \<longleftrightarrow> (\<forall>s. suffix s t \<longrightarrow> url_match_here s = None)"
proof (induction t rule: findall_urls.induct)
  case 1
  show ?case by (simp add: url_match_here_def u_def)
next
  case (2 c cs)
  show ?case
  proof (cases "url_match_here (c # cs)")
    case None
    from 2(1)[OF None] None show ?thesis
      by (auto simp: suffix_Cons)
  next
    case (Some a)
    then show ?thesis by (cases a) (auto simp: suffix_Cons)
  qed
qed

lemma findall_urls_empty_iff:
  "findall_urls t = [] \<longleftrightarrow> (\<forall>s. sublist s t \<longrightarrow> \<not> url_pattern s)"
proof
  assume e: "findall_urls t = []"
  show "\<forall>s. sublist s t \<longrightarrow> \<not> url_pattern s"
  proof (intro allI impI notI)
    fix s assume "sublist s t" "url_pattern s"
    then obtain ps ss where "t = ps @ s @ ss" by (auto simp: sublist_def)
    then have "suffix (s @ ss) t" by (simp add: suffix_def)
    with e have "url_match_here (s @ ss) = None" by (simp add: findall_urls_empty_suffixes)
    with \<open>url_pattern s\<close> show False using url_pattern_match_here by blast
  qed
next
  assume a: "\<forall>s. sublist s t \<longrightarrow> \<not> url_pattern s"
  have "url_match_here s = None" if "suffix s t" for s
  proof (rule ccontr)
    assume "url_match_here s \<noteq> None"
    then obtain m rest where "url_match_here s = Some (m, rest)" by auto
    then have "s = m @ rest" "url_pattern m" using url_match_here_Some by blast+
    with that have "sublist m t" by (auto simp: suffix_def sublist_def)
    with a \<open>url_pattern m\<close> show False by blast
  qed
  then show "findall_urls t = []" by (simp add: findall_urls_empty_suffixes)
qed

subsection \<open>Classification of one link\<close>

lemma py_in_self_append: "py_in x (a @ x @ b)"
  by (auto simp: py_in_def sublist_def)

lemma starts_check: "startswith (9989 # s) [9989]" "\<not> startswith (10060 # s) [9989]"
  "\<not> startswith (128274 # s) [9989]" "\<not> startswith ([9888, 65039] @ s) [9989]"
  by (simp_all add: startswith_def)

lemma suggest_404_fixes_nonempty:
  "suggest_404_fixes L url = Inr s \<Longrightarrow> s \<noteq> []"
  by (auto simp: suggest_404_fixes_def Let_def u_def nl_def split: sum.splits if_splits)

text \<open>
  Claim C5. For every checked URL the outcome is classified as follows: a response with
  status 200 is labelled Working, with no suggestion; \<open>HTTPError\<close> 404 is labelled Not Found
  (404) and carries the non-empty remediation text of \<open>suggest_404_fixes\<close> (the URL being one
  that \<open>urlparse\<close> parses); \<open>HTTPError\<close> 401 or 403 is labelled Access Restricted with its
  code; any other \<open>HTTPError\<close> code is labelled HTTP with its code; any other exception is
  labelled Error with the first 50 characters of its message, and its suggestion is chosen
  by the substrings of the message, in this order: \<open>SSL\<close> or (in the lowered message)
  \<open>certificate\<close>; \<open>Name or service not known\<close> or \<open>DNS\<close>; \<open>Connection refused\<close>; otherwise
  the generic network-error text.
\<close>

theorem link_classification:
  "check_single_link L url (Response 200) =
     Inr \<lparr>lr_url = url, lr_status = 9989 # u '' Working'', lr_code = Code 200, lr_suggestion = None\<rparr> \<and>
   (py_urlparse L url = Inr p \<longrightarrow>
      (\<exists>s. s \<noteq> [] \<and> suggest_404_fixes L url = Inr s \<and>
        check_single_link L url (HTTPError 404) =
          Inr \<lparr>lr_url = url, lr_status = 10060 # u '' Not Found (404)'', lr_code = Code 404,
               lr_suggestion = Some s\<rparr>)) \<and>
   (c = 401 \<or> c = 403 \<longrightarrow>
      check_single_link L url (HTTPError c) =
        Inr \<lparr>lr_url = url, lr_status = 128274 # u '' Access Restricted ('' @ str_of_int c @ u '')'',
             lr_code = Code c,
             lr_suggestion = Some (u ''Verify if authentication is required or if link should be public'')\<rparr>) \<and>
   (c' \<noteq> 404 \<and> c' \<noteq> 401 \<and> c' \<noteq> 403 \<longrightarrow>
      check_single_link L url (HTTPError c') =
        Inr \<lparr>lr_url = url, lr_status = 10060 # u '' HTTP '' @ str_of_int c', lr_code = Code c',
             lr_suggestion = Some (u ''Check server status or find alternative'')\<rparr>) \<and>
   check_single_link L url (OtherException msg) =
     Inr \<lparr>lr_url = url, lr_status = 10060 # u '' Error: '' @ take 50 msg, lr_code = ERROR,
          lr_suggestion = Some
            (if py_in (u ''SSL'') msg \<or> py_in (u ''certificate'') (py_lower L msg)
             then u ''SSL certificate issue - site may be misconfigured or unsafe''
             else if py_in (u ''Name or service not known'') msg \<or> py_in (u ''DNS'') msg
             then u ''Domain no longer exists - find alternative or remove link''
             else if py_in (u ''Connection refused'') msg
             then u ''Server is down - check if this is temporary or permanent''
             else u ''Network error - verify URL is correct'')\<rparr>"
proof -
  have ok: "check_single_link L url (Response 200) =
     Inr \<lparr>lr_url = url, lr_status = 9989 # u '' Working'', lr_code = Code 200, lr_suggestion = None\<rparr>"
    by (simp add: check_single_link_def)
  have nf: "\<exists>s. s \<noteq> [] \<and> suggest_404_fixes L url = Inr s \<and>
        check_single_link L url (HTTPError 404) =
          Inr \<lparr>lr_url = url, lr_status = 10060 # u '' Not Found (404)'', lr_code = Code 404,
               lr_suggestion = Some s\<rparr>" if "py_urlparse L url = Inr p"
  proof -
    from that obtain s where s: "suggest_404_fixes L url = Inr s"
      by (simp add: suggest_404_fixes_def Let_def)
    then have "s \<noteq> []" by (rule suggest_404_fixes_nonempty)
    with s show ?thesis by (simp add: check_single_link_def)
  qed
  have ar: "check_single_link L url (HTTPError c) =
        Inr \<lparr>lr_url = url, lr_status = 128274 # u '' Access Restricted ('' @ str_of_int c @ u '')'',
             lr_code = Code c,
             lr_suggestion = Some (u ''Verify if authentication is required or if link should be public'')\<rparr>"
    if "c = 401 \<or> c = 403"
    using that by (auto simp: check_single_link_def)
  have ot: "check_single_link L url (HTTPError c') =
        Inr \<lparr>lr_url = url, lr_status = 10060 # u '' HTTP '' @ str_of_int c', lr_code = Code c',
             lr_suggestion = Some (u ''Check server status or find alternative'')\<rparr>"
    if "c' \<noteq> 404 \<and> c' \<noteq> 401 \<and> c' \<noteq> 403"
    using that by (simp add: check_single_link_def)
  have ex: "check_single_link L url (OtherException msg) =
     Inr \<lparr>lr_url = url, lr_status = 10060 # u '' Error: '' @ take 50 msg, lr_code = ERROR,
          lr_suggestion = Some
            (if py_in (u ''SSL'') msg \<or> py_in (u ''certificate'') (py_lower L msg)
             then u ''SSL certificate issue - site may be misconfigured or unsafe''
             else if py_in (u ''Name or service not known'') msg \<or> py_in (u ''DNS'') msg
             then u ''Domain no longer exists - find alternative or remove link''
             else if py_in (u ''Connection refused'') msg
             then u ''Server is down - check if this is temporary or permanent''
             else u ''Network error - verify URL is correct'')\<rparr>"
    by (simp add: check_single_link_def suggest_error_fixes_def)
  from ok nf ar ot ex show ?thesis by blast
qed


lemma parse_missing:
  "py_urlparse ascii_lib (u ''https://example.com/api/v1/missing'') =
     Inr \<lparr>url_scheme = u ''https'', url_netloc = u ''example.com'', url_path = u ''/api/v1/missing''\<rparr>"
  by code_simp

theorem link_classification_witness:
  "check_single_link ascii_lib (u ''https://example.com/api/v1/missing'') (HTTPError 404) =
     Inr \<lparr>lr_url = u ''https://example.com/api/v1/missing'',
          lr_status = 10060 # u '' Not Found (404)'', lr_code = Code 404,
          lr_suggestion = Some
            (8226 # u '' API version may have changed - check for newer versions'' @ nl @
             8226 # u '' Endpoint may have been deprecated - check API changelog'' @ nl @
             8226 # u '' Check site manually: https://example.com'' @ nl @
             8226 # u '' Search archive: https://web.archive.org/web/https://example.com/api/v1/missing'')\<rparr> \<and>
   check_single_link ascii_lib (u ''https://example.com/api/v1/missing'') (HTTPError 403) =
     Inr \<lparr>lr_url = u ''https://example.com/api/v1/missing'',
          lr_status = 128274 # u '' Access Restricted (403)'', lr_code = Code 403,
          lr_suggestion = Some (u ''Verify if authentication is required or if link should be public'')\<rparr> \<and>
   check_single_link ascii_lib (u ''https://example.com/api/v1/missing'') (HTTPError 500) =
     Inr \<lparr>lr_url = u ''https://example.com/api/v1/missing'',
          lr_status = 10060 # u '' HTTP 500'', lr_code = Code 500,
          lr_suggestion = Some (u ''Check server status or find alternative'')\<rparr> \<and>
   check_single_link ascii_lib (u ''https://example.com/api/v1/missing'')
       (OtherException (u ''[Errno 111] Connection refused'')) =
     Inr \<lparr>lr_url = u ''https://example.com/api/v1/missing'',
          lr_status = 10060 # u '' Error: [Errno 111] Connection refused'', lr_code = ERROR,
          lr_suggestion = Some (u ''Server is down - check if this is temporary or permanent'')\<rparr>"
proof -
  have s404: "suggest_404_fixes ascii_lib (u ''https://example.com/api/v1/missing'') =
     Inr (8226 # u '' API version may have changed - check for newer versions'' @ nl @
             8226 # u '' Endpoint may have been deprecated - check API changelog'' @ nl @
             8226 # u '' Check site manually: https://example.com'' @ nl @
             8226 # u '' Search archive: https://web.archive.org/web/https://example.com/api/v1/missing'')"
    by code_simp
  have d: "str_of_int 403 = u ''403''" "str_of_int 500 = u ''500''" by code_simp+
  have m: "\<not> py_in (u ''SSL'') (u ''[Errno 111] Connection refused'')"
    "\<not> py_in (u ''certificate'') (py_lower ascii_lib (u ''[Errno 111] Connection refused''))"
    "\<not> py_in (u ''Name or service not known'') (u ''[Errno 111] Connection refused'')"
    "\<not> py_in (u ''DNS'') (u ''[Errno 111] Connection refused'')"
    "py_in (u ''Connection refused'') (u ''[Errno 111] Connection refused'')"
    "take 50 (u ''[Errno 111] Connection refused'') = u ''[Errno 111] Connection refused''"
    by code_simp+
  from link_classification[of ascii_lib "u ''https://example.com/api/v1/missing''" _ 403 500
      "u ''[Errno 111] Connection refused''"] parse_missing s404 d m
  show ?thesis by (simp add: u_def)
qed

subsection \<open>The loop and the report\<close>

text \<open>The test of the loop: the status begins with the check mark.\<close>

definition is_working :: "link_result \<Rightarrow> bool" where
  "is_working r = startswith (lr_status r) [9989]"

lemma check_single_link_url:
  "check_single_link L url out = Inr r \<Longrightarrow> lr_url r = url"
  by (auto simp: check_single_link_def split: outcome.splits if_splits sum.splits)

lemma check_all_links_Inr:
  "check_all_links L E urls wk iss w = (Inr (working, issues), w') \<Longrightarrow>
   \<exists>rs. length rs = length urls \<and>
     (\<forall>i<length urls. check_single_link L (urls ! i)
         (urlopen E (length (http_calls w) + i) (urls ! i)) = Inr (rs ! i)) \<and>
     working = wk @ filter is_working rs \<and>
     issues = iss @ filter (\<lambda>r. \<not> is_working r) rs \<and>
     http_calls w' = http_calls w @ urls \<and> llm_calls w' = llm_calls w"
proof (induction urls arbitrary: wk iss w)
  case Nil
  then show ?case by simp
next
  case (Cons url urls)
  let ?w1 = "w\<lparr>http_calls := http_calls w @ [url]\<rparr>"
  from Cons.prems obtain r where
    r: "check_single_link L url (urlopen E (length (http_calls w)) url) = Inr r"
    by (auto simp: Let_def split: sum.splits)
  with Cons.prems have rec:
    "check_all_links L E urls (if is_working r then wk @ [r] else wk)
       (if is_working r then iss else iss @ [r]) ?w1 = (Inr (working, issues), w')"
    by (auto simp: Let_def is_working_def split: if_splits)
  from Cons.IH[OF rec] obtain rs where rs: "length rs = length urls"
    "\<forall>i<length urls. check_single_link L (urls ! i)
         (urlopen E (length (http_calls ?w1) + i) (urls ! i)) = Inr (rs ! i)"
    "working = (if is_working r then wk @ [r] else wk) @ filter is_working rs"
    "issues = (if is_working r then iss else iss @ [r]) @ filter (\<lambda>r. \<not> is_working r) rs"
    "http_calls w' = http_calls ?w1 @ urls" "llm_calls w' = llm_calls ?w1"
    by blast
  have "\<forall>i<length (url # urls). check_single_link L ((url # urls) ! i)
         (urlopen E (length (http_calls w) + i) ((url # urls) ! i)) = Inr ((r # rs) ! i)"
  proof (intro allI impI)
    fix i assume "i < length (url # urls)"
    then show "check_single_link L ((url # urls) ! i)
         (urlopen E (length (http_calls w) + i) ((url # urls) ! i)) = Inr ((r # rs) ! i)"
      using r rs(2) by (cases i) auto
  qed
  with rs show ?case
    by (intro exI[of _ "r # rs"]) auto
qed

lemma length_filter_partition:
  "length (filter P xs) + length (filter (\<lambda>x. \<not> P x) xs) = length xs"
  by (induction xs) auto

lemmas link_eval =
  u_def nl_def url_match_here_def url_char_def is_space_def run_link_validation_def
  log_system_message_def check_single_link_def format_findings_def format_issue_def
  str_of_nat_def str_of_int_def startswith_def quiet_env_def fresh_world_def Let_def


text \<open>
  Claim C10. Only the status 200 is classified as working. A response with any other
  status that comes without an exception (201, 204, ...) is labelled \<open>HTTP\<close> with that
  status, carries the suggestion to check the intended behaviour, and is put among the
  issues, not among the working links; every working link has the code 200.
\<close>

theorem other_status_is_issue:
  assumes "status \<noteq> 200"
    and "check_all_links L E urls [] [] w = (Inr (working_links, issues), w')"
    and "i < length urls"
    and "urlopen E (length (http_calls w) + i) (urls ! i) = Response status"
  shows "\<lparr>lr_url = urls ! i, lr_status = [9888, 65039] @ u '' HTTP '' @ str_of_int status,
           lr_code = Code status,
           lr_suggestion = Some (u ''Check if this is the intended behavior'')\<rparr> \<in> set issues \<and>
         \<lparr>lr_url = urls ! i, lr_status = [9888, 65039] @ u '' HTTP '' @ str_of_int status,
           lr_code = Code status,
           lr_suggestion = Some (u ''Check if this is the intended behavior'')\<rparr> \<notin> set working_links \<and>
         (\<forall>r \<in> set working_links. lr_code r = Code 200)"
proof -
  let ?r = "\<lparr>lr_url = urls ! i, lr_status = [9888, 65039] @ u '' HTTP '' @ str_of_int status,
           lr_code = Code status,
           lr_suggestion = Some (u ''Check if this is the intended behavior'')\<rparr>"
  from check_all_links_Inr[OF assms(2)] obtain rs where rs: "length rs = length urls"
    "\<forall>i<length urls. check_single_link L (urls ! i)
         (urlopen E (length (http_calls w) + i) (urls ! i)) = Inr (rs ! i)"
    "working_links = filter is_working rs" "issues = filter (\<lambda>r. \<not> is_working r) rs"
    by auto
  from rs(2) assms(3,4) have "check_single_link L (urls ! i) (Response status) = Inr (rs ! i)"
    by auto
  with assms(1) have ri: "rs ! i = ?r" by (simp add: check_single_link_def)
  have nw: "\<not> is_working ?r" by (simp add: is_working_def startswith_def)
  from ri rs(1) assms(3) have "?r \<in> set rs" by (metis nth_mem)
  with nw have 1: "?r \<in> set issues" "?r \<notin> set working_links" by (auto simp: rs)
  have 2: "lr_code r = Code 200" if "r \<in> set working_links" for r
  proof -
    from that obtain j where j: "j < length rs" "rs ! j = r" "is_working r"
      by (auto simp: rs in_set_conv_nth)
    with rs(1,2) have "check_single_link L (urls ! j)
         (urlopen E (length (http_calls w) + j) (urls ! j)) = Inr r" by auto
    with j(3) show ?thesis
      by (auto simp: check_single_link_def is_working_def startswith_def
          split: outcome.splits if_splits sum.splits)
  qed
  from 1 2 show ?thesis by blast
qed


theorem other_status_is_issue_witness:
  "fst (check_all_links ascii_lib (quiet_env\<lparr>urlopen := (\<lambda>k url. if k = 0 then Response 204 else Response 200)\<rparr>)
         [u ''http://a.example/x'', u ''https://b.example''] [] [] fresh_world) =
     Inr ([\<lparr>lr_url = u ''https://b.example'', lr_status = 9989 # u '' Working'',
             lr_code = Code 200, lr_suggestion = None\<rparr>],
          [\<lparr>lr_url = u ''http://a.example/x'', lr_status = [9888, 65039] @ u '' HTTP 204'',
             lr_code = Code 204,
             lr_suggestion = Some (u ''Check if this is the intended behavior'')\<rparr>]) \<and>
   \<lparr>lr_url = u ''http://a.example/x'', lr_status = [9888, 65039] @ u '' HTTP 204'',
     lr_code = Code 204, lr_suggestion = Some (u ''Check if this is the intended behavior'')\<rparr>
   \<notin> set [\<lparr>lr_url = u ''https://b.example'', lr_status = 9989 # u '' Working'',
             lr_code = Code 200, lr_suggestion = None\<rparr>]"
proof -
  let ?E = "quiet_env\<lparr>urlopen := (\<lambda>k url. if k = 0 then Response 204 else Response 200)\<rparr>"
  let ?urls = "[u ''http://a.example/x'', u ''https://b.example'']"
  let ?ok = "\<lparr>lr_url = u ''https://b.example'', lr_status = 9989 # u '' Working'',
             lr_code = Code 200, lr_suggestion = None\<rparr>"
  let ?warn = "\<lparr>lr_url = u ''http://a.example/x'', lr_status = [9888, 65039] @ u '' HTTP 204'',
             lr_code = Code 204,
             lr_suggestion = Some (u ''Check if this is the intended behavior'')\<rparr>"
  have f: "fst (check_all_links ascii_lib ?E ?urls [] [] fresh_world) = Inr ([?ok], [?warn])"
    by (simp add: link_eval)
  have c: "check_all_links ascii_lib ?E ?urls [] [] fresh_world =
      (Inr ([?ok], [?warn]), snd (check_all_links ascii_lib ?E ?urls [] [] fresh_world))"
    by (rule prod_eqI) (simp_all only: f fst_conv snd_conv)
  have o: "urlopen ?E (length (http_calls fresh_world) + 0) (?urls ! 0) = Response 204"
    by (simp add: fresh_world_def)
  have d: "str_of_int 204 = u ''204''" by (simp add: str_of_int_def u_def)
  from other_status_is_issue[OF _ c _ o] f d show ?thesis
    by (simp del: check_all_links.simps)
qed


text \<open>
  Claim C1, as amended. Whenever the Link Validator produces its report for a text with
  matches of the URL pattern, there is one result for each match, in the order of the
  matches (a URL that occurs twice is checked twice and counted twice), each result is in
  exactly one of the list of working links and the list of issues, and the two counts of
  the report add up to the number of matches.
\<close>

theorem link_report_counts:
  assumes "fst (run_link_validation L E text meta w) = Findings a f"
    and "findall_urls text \<noteq> []"
  shows "\<exists>results.
           map lr_url results = findall_urls text \<and>
           f = format_findings (length (findall_urls text))
                 (filter is_working results) (filter (\<lambda>r. \<not> is_working r) results) \<and>
           length (filter is_working results) + length (filter (\<lambda>r. \<not> is_working r) results) =
             length (findall_urls text)"
proof -
  let ?urls = "findall_urls text"
  let ?w0 = "log_system_message L E (u ''Link Validator: Starting link validation'') w"
  let ?w1 = "log_system_message L E
               (u ''Link Validator: Found '' @ str_of_nat (length ?urls) @ u '' links to check'') ?w0"
  obtain res w2 where c: "check_all_links L E ?urls [] [] ?w1 = (res, w2)"
    by (cases "check_all_links L E ?urls [] [] ?w1")
  from assms c obtain working issues where res: "res = Inr (working, issues)"
    and f: "f = format_findings (length ?urls) working issues"
    by (auto simp: run_link_validation_def Let_def split: sum.splits prod.splits)
  from check_all_links_Inr[OF c[unfolded res]] obtain rs where rs: "length rs = length ?urls"
    "\<forall>i<length ?urls. check_single_link L (?urls ! i)
         (urlopen E (length (http_calls ?w1) + i) (?urls ! i)) = Inr (rs ! i)"
    "working = filter is_working rs" "issues = filter (\<lambda>r. \<not> is_working r) rs"
    by auto
  have "map lr_url rs = ?urls"
  proof (rule nth_equalityI)
    show "length (map lr_url rs) = length ?urls" using rs(1) by simp
  next
    fix i assume "i < length (map lr_url rs)"
    then have i: "i < length ?urls" using rs(1) by simp
    with rs(2) have "lr_url (rs ! i) = ?urls ! i"
      using check_single_link_url by blast
    with i rs(1) show "map lr_url rs ! i = ?urls ! i" by simp
  qed
  with f rs show ?thesis
    using length_filter_partition[of is_working rs] by auto
qed

theorem link_report_counts_witness:
  "\<exists>results.
     map lr_url results = [u ''http://a.example/x'', u ''https://b.example''] \<and>
     u ''**Link Validation Report** (2 links checked)'' @ nl @ nl @
       9989 # u '' **2 working links** - No action needed'' @ nl @ nl @
       127881 # u '' **All links are working perfectly!**'' =
     format_findings 2 (filter is_working results) (filter (\<lambda>r. \<not> is_working r) results) \<and>
     length (filter is_working results) + length (filter (\<lambda>r. \<not> is_working r) results) = 2"
proof -
  have f: "fst (run_link_validation ascii_lib quiet_env
             (u ''See http://a.example/x and (https://b.example)'') Map.empty fresh_world) =
           Findings (u ''Link Validator'')
             (u ''**Link Validation Report** (2 links checked)'' @ nl @ nl @
              9989 # u '' **2 working links** - No action needed'' @ nl @ nl @
              127881 # u '' **All links are working perfectly!**'')"
    by (simp add: link_eval)
  have urls: "findall_urls (u ''See http://a.example/x and (https://b.example)'') =
      [u ''http://a.example/x'', u ''https://b.example'']"
    by (simp add: link_eval)
  from link_report_counts[OF f] urls show ?thesis by (simp add: numeral_2_eq_2)
qed


text \<open>
  The claim as stated counts distinct URLs. A text with one URL written twice has one
  distinct URL, and the report counts two links.
\<close>

theorem repeated_url_counterexample:
  "card (set (findall_urls (u ''See http://a.example and http://a.example''))) = 1 \<and>
   fst (run_link_validation ascii_lib quiet_env
          (u ''See http://a.example and http://a.example'') Map.empty fresh_world) =
     Findings (u ''Link Validator'')
       (u ''**Link Validation Report** (2 links checked)'' @ nl @ nl @
        9989 # u '' **2 working links** - No action needed'' @ nl @ nl @
        127881 # u '' **All links are working perfectly!**'')"
  by (simp add: link_eval)


text \<open>
  Claim C7. For a text in which no substring matches the URL pattern, the Link Validator
  returns the one informational report that no external links were found, and asks
  nothing of the network or of the language model.
\<close>

theorem no_links_report:
  assumes "\<forall>s. sublist s text \<longrightarrow> \<not> url_pattern s"
  shows "fst (run_link_validation L E text meta w) = Findings (u ''Link Validator'') no_links_found \<and>
         http_calls (snd (run_link_validation L E text meta w)) = http_calls w \<and>
         llm_calls (snd (run_link_validation L E text meta w)) = llm_calls w"
proof -
  from assms have "findall_urls text = []" by (simp add: findall_urls_empty_iff)
  then show ?thesis
    by (simp add: run_link_validation_def log_system_message_def Let_def)
qed

theorem no_links_report_witness:
  "fst (run_link_validation ascii_lib quiet_env (u ''See ftp://x.y or http:/z and https:// .'') Map.empty fresh_world)
     = Findings (u ''Link Validator'') (9989 # u '' **No external links found** - Nothing to validate.'') \<and>
   http_calls (snd (run_link_validation ascii_lib quiet_env (u ''See ftp://x.y or http:/z and https:// .'') Map.empty fresh_world)) = []"
proof -
  have "findall_urls (u ''See ftp://x.y or http:/z and https:// .'') = []"
    by (simp add: u_def url_match_here_def url_char_def is_space_def)
  then have "\<forall>s. sublist s (u ''See ftp://x.y or http:/z and https:// .'') \<longrightarrow> \<not> url_pattern s"
    by (simp only: findall_urls_empty_iff)
  from no_links_report[OF this, of ascii_lib quiet_env Map.empty fresh_world]
  show ?thesis by (simp add: no_links_found_def fresh_world_def)
qed



subsection \<open>Remediation of a 404\<close>

text \<open>
  Claim C6, as amended. For a URL that \<open>urlparse\<close> parses, the suggestion of a 404 is the
  lines below joined by newlines. If the host contains \<open>github.com\<close>: the two lines about a
  renamed repository and a renamed branch, only when the path contains \<open>/blob/\<close>, then the
  archive line; the documentation and API branches are not tried for such a host.
  Otherwise, if the host contains \<open>docs.\<close>, \<open>documentation.\<close> or \<open>wiki.\<close>: the two
  documentation lines. Otherwise, if the path contains \<open>/api/\<close>, \<open>/v1/\<close>, \<open>/v2/\<close> or
  \<open>/rest/\<close>: the two API lines. In every case the line to check the site manually and the
  line to search the archive follow.
\<close>

theorem suggest_404_fixes_cases:
  assumes "py_urlparse L url = Inr p"
  shows "suggest_404_fixes L url =
     Inr (join nl
       ((if py_in (u ''github.com'') (url_netloc p) then
           (if py_in (u ''/blob/'') (url_path p) then
              [8226 # u '' Repository may have moved - check if it was renamed or transferred'',
               8226 # u '' Branch may have changed (master '' @ [8594] @ u '' main)'']
            else [])
           @ [8226 # u '' Try archive: https://web.archive.org/web/'' @ url]
         else if py_in (u ''docs.'') (url_netloc p) \<or> py_in (u ''documentation.'') (url_netloc p) \<or>
                 py_in (u ''wiki.'') (url_netloc p) then
           [8226 # u '' Documentation may have been restructured - check site'' @ [39] @ u ''s search'',
            8226 # u '' Try removing version numbers from URL path'']
         else if py_in (u ''/api/'') (url_path p) \<or> py_in (u ''/v1/'') (url_path p) \<or>
                 py_in (u ''/v2/'') (url_path p) \<or> py_in (u ''/rest/'') (url_path p) then
           [8226 # u '' API version may have changed - check for newer versions'',
            8226 # u '' Endpoint may have been deprecated - check API changelog'']
         else [])
        @ [8226 # u '' Check site manually: '' @ url_scheme p @ u ''://'' @ url_netloc p,
           8226 # u '' Search archive: https://web.archive.org/web/'' @ url]))"
  using assms by (simp add: suggest_404_fixes_def Let_def)

lemmas parse_eval = ascii_lib_def urlparse_ascii_def u_def Let_def

theorem suggest_404_fixes_cases_witness:
  "suggest_404_fixes ascii_lib (u ''https://github.com/o/r/blob/master/README.md'') =
     Inr (8226 # u '' Repository may have moved - check if it was renamed or transferred'' @ nl @
          8226 # u '' Branch may have changed (master '' @ [8594] @ u '' main)'' @ nl @
          8226 # u '' Try archive: https://web.archive.org/web/https://github.com/o/r/blob/master/README.md'' @ nl @
          8226 # u '' Check site manually: https://github.com'' @ nl @
          8226 # u '' Search archive: https://web.archive.org/web/https://github.com/o/r/blob/master/README.md'')"
proof -
  have p: "py_urlparse ascii_lib (u ''https://github.com/o/r/blob/master/README.md'') =
     Inr \<lparr>url_scheme = u ''https'', url_netloc = u ''github.com'',
          url_path = u ''/o/r/blob/master/README.md''\<rparr>"
    by (simp add: parse_eval)
  have i: "py_in (u ''github.com'') (u ''github.com'')"
    "py_in (u ''/blob/'') (u ''/o/r/blob/master/README.md'')"
    by (simp_all add: py_in_def u_def sublist_code)
  from suggest_404_fixes_cases[OF p] i show ?thesis by (simp add: u_def nl_def)
qed


text \<open>
  The claim as stated enters the first branch only when the host is a code-hosting one and
  the path has a blob segment, and otherwise goes on to the documentation pattern. For
  \<open>https://docs.github.com/x\<close> the host matches the documentation pattern and the path has
  no blob segment, yet no documentation line is suggested.
\<close>

theorem docs_on_github_counterexample:
  "py_urlparse ascii_lib (u ''https://docs.github.com/x'') =
     Inr \<lparr>url_scheme = u ''https'', url_netloc = u ''docs.github.com'', url_path = u ''/x''\<rparr> \<and>
   \<not> (py_in (u ''github.com'') (u ''docs.github.com'') \<and> py_in (u ''/blob/'') (u ''/x'')) \<and>
   py_in (u ''docs.'') (u ''docs.github.com'') \<and>
   suggest_404_fixes ascii_lib (u ''https://docs.github.com/x'') =
     Inr (8226 # u '' Try archive: https://web.archive.org/web/https://docs.github.com/x'' @ nl @
          8226 # u '' Check site manually: https://docs.github.com'' @ nl @
          8226 # u '' Search archive: https://web.archive.org/web/https://docs.github.com/x'')"
  by (simp add: parse_eval suggest_404_fixes_def py_in_def nl_def sublist_code)

section \<open>Documentation Fetcher (main.py and app.py)\<close>

text \<open>
  The two files define \<open>fetch_documentation\<close>, the table of URLs and the expiry with the
  same text; one model stands for both.
\<close>

definition CACHE_EXPIRY :: real where
  "CACHE_EXPIRY = 3600"

definition GITHUB_REPO_BASE :: ustring where
  "GITHUB_REPO_BASE = u ''https://raw.githubusercontent.com/Renda02/tech-101-handbook/main''"

definition DOCUMENTATION_URLS :: "ustring \<rightharpoonup> ustring" where
  "DOCUMENTATION_URLS = map_of
     [(u ''content_classification_guide'',
         GITHUB_REPO_BASE @ u ''/editing-rules/content-classification-guide.md''),
      (u ''style_guide'', GITHUB_REPO_BASE @ u ''/handbook/style-guide.md''),
      (u ''wordiness_examples'',
         GITHUB_REPO_BASE @ u ''/editing-rules/examples/wordiness-examples.md''),
      (u ''clarity_examples'',
         GITHUB_REPO_BASE @ u ''/editing-rules/examples/clarity-vague-language.md''),
      (u ''quick_reference'', GITHUB_REPO_BASE @ u ''/editing-rules/quick-reference.md'')]"

text \<open>
  The part of \<open>fetch_documentation\<close> after the cache check. \<open>requests.get\<close> followed by
  \<open>raise_for_status\<close> either gives the body or raises a \<open>RequestException\<close> (\<open>Inl\<close> its
  message).
\<close>

definition fetch_from_github :: "pylib \<Rightarrow> env \<Rightarrow> ustring \<Rightarrow> real \<Rightarrow> world \<Rightarrow> ustring option \<times> world" where
  "fetch_from_github L E doc_key now w =
     (case DOCUMENTATION_URLS doc_key of
        None \<Rightarrow>
          (None, log_system_message L E (u ''DOCS: Unknown documentation key: '' @ doc_key) w)
      | Some url \<Rightarrow>
          if url = [] then
            (None, log_system_message L E (u ''DOCS: Unknown documentation key: '' @ doc_key) w)
          else
            let w1 = log_system_message L E
                       (u ''DOCS: Fetching '' @ doc_key @ u '' from GitHub'') w;
                response = requests_get E (length (http_calls w1)) url;
                w2 = w1\<lparr>http_calls := http_calls w1 @ [url]\<rparr>
            in case response of
                 Inr content \<Rightarrow>
                   (Some content,
                    log_system_message L E (u ''DOCS: Successfully fetched '' @ doc_key)
                      (w2\<lparr>docs_cache := (docs_cache w2)
                            (doc_key \<mapsto> \<lparr>ce_content = content, ce_timestamp = now\<rparr>)\<rparr>))
               | Inl e \<Rightarrow>
                   (None,
                    log_system_message L E
                      (u ''DOCS ERROR: Failed to fetch '' @ doc_key @ u '': '' @ e) w2))"

definition fetch_documentation :: "pylib \<Rightarrow> env \<Rightarrow> ustring \<Rightarrow> world \<Rightarrow> ustring option \<times> world" where
  "fetch_documentation L E doc_key w =
     (let now = clock E (ticks w);
          w0 = w\<lparr>ticks := Suc (ticks w)\<rparr>
      in case docs_cache w0 doc_key of
           Some cache_entry \<Rightarrow>
             if now - ce_timestamp cache_entry < CACHE_EXPIRY then
               (Some (ce_content cache_entry),
                log_system_message L E (u ''DOCS: Using cached '' @ doc_key) w0)
             else fetch_from_github L E doc_key now w0
         | None \<Rightarrow> fetch_from_github L E doc_key now w0)"

lemma log_system_message_fields [simp]:
  "http_calls (log_system_message L E m w) = http_calls w"
  "llm_calls (log_system_message L E m w) = llm_calls w"
  "docs_cache (log_system_message L E m w) = docs_cache w"
  "db_rows (log_system_message L E m w) = db_rows w"
  "db_ops (log_system_message L E m w) = db_ops w"
  "db_next_id (log_system_message L E m w) = db_next_id w"
  "ss_last_review (log_system_message L E m w) = ss_last_review w"
  "ss_messages (log_system_message L E m w) = ss_messages w"
  "ticks (log_system_message L E m w) = Suc (ticks w)"
  by (simp_all add: log_system_message_def Let_def)

lemma fetch_from_github_Some:
  assumes "fetch_from_github L E k now w = (Some c, w')"
  shows "\<exists>ce. docs_cache w' k = Some ce \<and> ce_content ce = c \<and> ce_timestamp ce = now"
  using assms
  by (auto simp: fetch_from_github_def Let_def split: option.splits if_splits sum.splits)

text \<open>
  Claim C8. When the cache holds an entry for a key and the time read at the call is less
  than 3600 seconds after the entry's timestamp, \<open>fetch_documentation\<close> returns the
  content of the entry, makes no network request and leaves the cache as it is. The entry
  holds what the prior fetch returned: after any call that returned a content, the cache
  has an entry for the key with that content.
\<close>

theorem cached_fetch_is_local:
  "(docs_cache w k = Some ce \<and> clock E (ticks w) - ce_timestamp ce < CACHE_EXPIRY \<longrightarrow>
      fst (fetch_documentation L E k w) = Some (ce_content ce) \<and>
      http_calls (snd (fetch_documentation L E k w)) = http_calls w \<and>
      docs_cache (snd (fetch_documentation L E k w)) = docs_cache w) \<and>
   (fetch_documentation L E k w = (Some c, w') \<longrightarrow>
      (\<exists>ce'. docs_cache w' k = Some ce' \<and> ce_content ce' = c))"
proof (intro conjI impI)
  assume a: "docs_cache w k = Some ce \<and> clock E (ticks w) - ce_timestamp ce < CACHE_EXPIRY"
  then have r: "fetch_documentation L E k w =
      (Some (ce_content ce),
       log_system_message L E (u ''DOCS: Using cached '' @ k) (w\<lparr>ticks := Suc (ticks w)\<rparr>))"
    by (simp add: fetch_documentation_def Let_def)
  show "fst (fetch_documentation L E k w) = Some (ce_content ce)" by (simp add: r)
  show "http_calls (snd (fetch_documentation L E k w)) = http_calls w" by (simp add: r)
  show "docs_cache (snd (fetch_documentation L E k w)) = docs_cache w" by (simp add: r)
next
  assume f: "fetch_documentation L E k w = (Some c, w')"
  let ?w0 = "w\<lparr>ticks := Suc (ticks w)\<rparr>"
  show "\<exists>ce'. docs_cache w' k = Some ce' \<and> ce_content ce' = c"
  proof (cases "docs_cache w k")
    case None
    with f have "fetch_from_github L E k (clock E (ticks w)) ?w0 = (Some c, w')"
      by (simp add: fetch_documentation_def Let_def)
    from fetch_from_github_Some[OF this] show ?thesis by blast
  next
    case (Some e)
    show ?thesis
    proof (cases "clock E (ticks w) - ce_timestamp e < CACHE_EXPIRY")
      case True
      with Some f show ?thesis by (auto simp: fetch_documentation_def Let_def)
    next
      case False
      with Some f have "fetch_from_github L E k (clock E (ticks w)) ?w0 = (Some c, w')"
        by (simp add: fetch_documentation_def Let_def)
      from fetch_from_github_Some[OF this] show ?thesis by blast
    qed
  qed
qed

lemmas fetch_eval =
  fetch_documentation_def fetch_from_github_def DOCUMENTATION_URLS_def GITHUB_REPO_BASE_def
  CACHE_EXPIRY_def log_system_message_def quiet_env_def fresh_world_def Let_def u_def

theorem cached_fetch_is_local_witness:
  "fst (fetch_documentation ascii_lib quiet_env (u ''style_guide'') fresh_world) = Some (u ''# Guide'') \<and>
   http_calls (snd (fetch_documentation ascii_lib quiet_env (u ''style_guide'') fresh_world)) =
     [u ''https://raw.githubusercontent.com/Renda02/tech-101-handbook/main/handbook/style-guide.md''] \<and>
   fst (fetch_documentation ascii_lib quiet_env (u ''style_guide'')
          (snd (fetch_documentation ascii_lib quiet_env (u ''style_guide'') fresh_world))) =
     Some (u ''# Guide'') \<and>
   http_calls (snd (fetch_documentation ascii_lib quiet_env (u ''style_guide'')
          (snd (fetch_documentation ascii_lib quiet_env (u ''style_guide'') fresh_world)))) =
     [u ''https://raw.githubusercontent.com/Renda02/tech-101-handbook/main/handbook/style-guide.md'']"
proof -
  let ?w1 = "snd (fetch_documentation ascii_lib quiet_env (u ''style_guide'') fresh_world)"
  have f1: "fst (fetch_documentation ascii_lib quiet_env (u ''style_guide'') fresh_world) = Some (u ''# Guide'')"
    by (simp add: fetch_eval)
  have h1: "http_calls ?w1 =
     [u ''https://raw.githubusercontent.com/Renda02/tech-101-handbook/main/handbook/style-guide.md'']"
    by (simp add: fetch_eval)
  have c1: "docs_cache ?w1 (u ''style_guide'') =
      Some \<lparr>ce_content = u ''# Guide'', ce_timestamp = 1700000000\<rparr>"
    by (simp add: fetch_eval)
  have t1: "clock quiet_env (ticks ?w1) - 1700000000 < CACHE_EXPIRY"
    by (simp add: fetch_eval)
  from cached_fetch_is_local[of ?w1 "u ''style_guide''" "\<lparr>ce_content = u ''# Guide'', ce_timestamp = 1700000000\<rparr>"
      quiet_env ascii_lib] c1 t1 f1 h1
  show ?thesis by simp
qed

section \<open>Persistence (main.py)\<close>

text \<open>
  The table \<open>editorial_reviews\<close> is the list of its rows in the order of insertion. An
  operation on the database (connect, execute, commit) raises when the environment says
  so, which covers a missing table, a locked file and a value that cannot be bound; the
  functions catch the exception as the source does.

  \<open>save_review\<close>: one \<open>INSERT\<close> of the five given columns; \<open>id\<close> is assigned by the store
  and \<open>review_status\<close> takes the default of the schema.
\<close>

definition save_review ::
  "pylib \<Rightarrow> env \<Rightarrow> ustring \<Rightarrow> ustring \<Rightarrow> ustring \<Rightarrow> ustring \<Rightarrow> world \<Rightarrow> bool \<times> world" where
  "save_review L E doc_type doc_title original_text review_notes w =
     (let timestamp = py_strftime L (u ''%Y-%m-%d %H:%M:%S'') (clock E (ticks w));
          w0 = w\<lparr>ticks := Suc (ticks w)\<rparr>;
          w1 = w0\<lparr>db_ops := Suc (db_ops w0)\<rparr>
      in case db_raises E (db_ops w0) of
           None \<Rightarrow>
             (True,
              w1\<lparr>db_rows := db_rows w1 @
                     [\<lparr>row_id = db_next_id w1, row_timestamp = timestamp,
                       row_document_type = doc_type, row_document_title = doc_title,
                       row_original_text = original_text, row_review_notes = review_notes,
                       row_review_status = u ''completed''\<rparr>],
                  db_next_id := Suc (db_next_id w1)\<rparr>)
         | Some e \<Rightarrow>
             (False, w1\<lparr>ui_errors := ui_errors w1 @ [u ''Database error: '' @ e]\<rparr>))"

text \<open>
  \<open>SELECT * FROM editorial_reviews ORDER BY timestamp DESC\<close>. The column is text, compared
  code point by code point. SQL leaves the order of rows with equal timestamps open; here
  they keep the order of insertion.
\<close>

fun place_row :: "review_row \<Rightarrow> review_row list \<Rightarrow> review_row list" where
  "place_row r [] = [r]"
| "place_row r (x # xs) =
     (if row_timestamp x < row_timestamp r then r # x # xs else x # place_row r xs)"

definition order_by_timestamp_desc :: "review_row list \<Rightarrow> review_row list" where
  "order_by_timestamp_desc rows = foldl (\<lambda>acc r. place_row r acc) [] rows"

definition get_reviews :: "env \<Rightarrow> world \<Rightarrow> review_row list \<times> world" where
  "get_reviews E w =
     (let w1 = w\<lparr>db_ops := Suc (db_ops w)\<rparr>
      in case db_raises E (db_ops w) of
           None \<Rightarrow> (order_by_timestamp_desc (db_rows w1), w1)
         | Some e \<Rightarrow> ([], w1))"

section \<open>Properties of the persistence\<close>

definition timestamps_descending :: "review_row list \<Rightarrow> bool" where
  "timestamps_descending rows =
     sorted_wrt (\<lambda>a b. row_timestamp b \<le> row_timestamp a) rows"

lemma set_place_row: "set (place_row r xs) = insert r (set xs)"
  by (induction xs) auto

lemma descending_place_row:
  "sorted_wrt (\<lambda>a b. row_timestamp b \<le> row_timestamp a) xs \<Longrightarrow>
   sorted_wrt (\<lambda>a b. row_timestamp b \<le> row_timestamp a) (place_row r xs)"
  by (induction xs) (auto simp: set_place_row)

lemma foldl_place_row:
  "set (foldl (\<lambda>acc r. place_row r acc) acc rows) = set acc \<union> set rows"
  "sorted_wrt (\<lambda>a b. row_timestamp b \<le> row_timestamp a) acc \<Longrightarrow>
   sorted_wrt (\<lambda>a b. row_timestamp b \<le> row_timestamp a) (foldl (\<lambda>acc r. place_row r acc) acc rows)"
  by (induction rows arbitrary: acc) (auto simp: set_place_row descending_place_row)

lemma set_order_by_timestamp_desc: "set (order_by_timestamp_desc rows) = set rows"
  by (simp add: order_by_timestamp_desc_def foldl_place_row)

lemma descending_order_by_timestamp_desc:
  "timestamps_descending (order_by_timestamp_desc rows)"
  by (simp add: order_by_timestamp_desc_def timestamps_descending_def foldl_place_row)

lemma descending_get_reviews: "timestamps_descending (fst (get_reviews E w))"
proof (cases "db_raises E (db_ops w)")
  case None
  then show ?thesis
    by (simp add: get_reviews_def Let_def descending_order_by_timestamp_desc)
next
  case (Some e)
  then show ?thesis
    by (simp add: get_reviews_def Let_def timestamps_descending_def)
qed

text \<open>
  Claim C9. When \<open>save_review\<close> has saved a review (it returned \<open>True\<close>), a later
  \<open>get_reviews\<close> on a table that still holds the rows, and that reads without a database
  exception, returns a row with the same title, type and original text; and the rows that
  \<open>get_reviews\<close> returns are ordered by timestamp, descending.
\<close>

theorem saved_review_read_back:
  assumes "save_review L E doc_type doc_title original_text review_notes w = (True, w1)"
    and "set (db_rows w1) \<subseteq> set (db_rows w2)"
    and "db_raises E (db_ops w2) = None"
  shows "(\<exists>r \<in> set (fst (get_reviews E w2)).
            row_document_title r = doc_title \<and> row_document_type r = doc_type \<and>
            row_original_text r = original_text) \<and>
         timestamps_descending (fst (get_reviews E w2))"
proof -
  define r where "r = \<lparr>row_id = db_next_id w,
      row_timestamp = py_strftime L (u ''%Y-%m-%d %H:%M:%S'') (clock E (ticks w)),
      row_document_type = doc_type, row_document_title = doc_title,
      row_original_text = original_text, row_review_notes = review_notes,
      row_review_status = u ''completed''\<rparr>"
  from assms(1) have "db_rows w1 = db_rows w @ [r]"
    by (auto simp: save_review_def Let_def r_def split: option.splits)
  then have r: "r \<in> set (db_rows w1)"
    "row_document_title r = doc_title" "row_document_type r = doc_type"
    "row_original_text r = original_text"
    by (simp_all add: r_def)
  from assms(3) have "set (fst (get_reviews E w2)) = set (db_rows w2)"
    by (simp add: get_reviews_def Let_def set_order_by_timestamp_desc)
  with r assms(2) have "\<exists>r \<in> set (fst (get_reviews E w2)).
            row_document_title r = doc_title \<and> row_document_type r = doc_type \<and>
            row_original_text r = original_text"
    by blast
  then show ?thesis using descending_get_reviews by blast
qed

lemmas db_eval =
  save_review_def get_reviews_def order_by_timestamp_desc_def timestamps_descending_def
  quiet_env_def fresh_world_def ascii_lib_def Let_def

theorem saved_review_read_back_witness:
  "map (\<lambda>r. (row_timestamp r, row_document_title r, row_document_type r, row_original_text r))
     (fst (get_reviews quiet_env
        (snd (save_review ascii_lib quiet_env (u ''Tutorial'') (u ''Second'') (u ''Click Save.'') (u ''ok'')
          (snd (save_review ascii_lib quiet_env (u ''User Guide'') (u ''First'') (u ''Open the file.'') (u ''ok'')
             fresh_world)))))) =
     [(u ''2023-11-14 22:13:21'', u ''Second'', u ''Tutorial'', u ''Click Save.''),
      (u ''2023-11-14 22:13:20'', u ''First'', u ''User Guide'', u ''Open the file.'')] \<and>
   (\<exists>r \<in> set (fst (get_reviews quiet_env
        (snd (save_review ascii_lib quiet_env (u ''Tutorial'') (u ''Second'') (u ''Click Save.'') (u ''ok'')
          (snd (save_review ascii_lib quiet_env (u ''User Guide'') (u ''First'') (u ''Open the file.'') (u ''ok'')
             fresh_world)))))).
      row_document_title r = u ''First'' \<and> row_document_type r = u ''User Guide'' \<and>
      row_original_text r = u ''Open the file.'')"
proof -
  let ?s1 = "save_review ascii_lib quiet_env (u ''User Guide'') (u ''First'') (u ''Open the file.'') (u ''ok'') fresh_world"
  let ?s2 = "save_review ascii_lib quiet_env (u ''Tutorial'') (u ''Second'') (u ''Click Save.'') (u ''ok'') (snd ?s1)"
  have t1: "strftime_utc (u ''%Y-%m-%d %H:%M:%S'') 1700000000 = u ''2023-11-14 22:13:20''"
    by code_simp
  have t2: "strftime_utc (u ''%Y-%m-%d %H:%M:%S'') 1700000001 = u ''2023-11-14 22:13:21''"
    by code_simp
  have a1: "?s1 = (True, snd ?s1)"
    by (simp add: db_eval)
  have a2: "set (db_rows (snd ?s1)) \<subseteq> set (db_rows (snd ?s2))"
    by (simp add: db_eval)
  have a3: "db_raises quiet_env (db_ops (snd ?s2)) = None" by (simp add: quiet_env_def)
  have rows: "map (\<lambda>r. (row_timestamp r, row_document_title r, row_document_type r, row_original_text r))
     (fst (get_reviews quiet_env (snd ?s2))) =
     [(u ''2023-11-14 22:13:21'', u ''Second'', u ''Tutorial'', u ''Click Save.''),
      (u ''2023-11-14 22:13:20'', u ''First'', u ''User Guide'', u ''Open the file.'')]"
    by (simp add: db_eval t1 t2) (simp add: u_def)
  from saved_review_read_back[OF a1 a2 a3] rows show ?thesis by blast
qed

section \<open>Heuristic Checker\<close>

subsection \<open>The regular expressions of the checker\<close>

text \<open>
  The patterns given to \<open>re.search\<close> are built from literal characters (compared without
  regard to case: every search has \<open>re.IGNORECASE\<close>), \<open>\s+\<close>, \<open>\w+\<close>, \<open>\b\<close>, sequence and
  alternative. A matcher state is the character before the position (none at the start of
  the text) and the text from the position on; \<open>rx_match\<close> gives every state in which a
  match of the pattern that starts at the given state can end, so that what follows a
  repetition can be tried after each of its lengths.
\<close>

datatype rx = Lit nat | Spaces | Words | Bound | Seq rx rx | Alt rx rx | Eps

type_synonym rx_state = "nat option \<times> ustring"

fun run_of :: "(nat \<Rightarrow> bool) \<Rightarrow> ustring \<Rightarrow> rx_state list" where
  "run_of P [] = []"
| "run_of P (c # cs) = (if P c then (Some c, cs) # run_of P cs else [])"

definition at_boundary :: "pylib \<Rightarrow> rx_state \<Rightarrow> bool" where
  "at_boundary L st =
     ((case fst st of None \<Rightarrow> False | Some c \<Rightarrow> re_word L c) \<noteq>
      (case snd st of [] \<Rightarrow> False | c # cs \<Rightarrow> re_word L c))"

fun rx_match :: "pylib \<Rightarrow> rx \<Rightarrow> rx_state \<Rightarrow> rx_state list" where
  "rx_match L (Lit p) st =
     (case snd st of [] \<Rightarrow> [] | c # cs \<Rightarrow> if re_ci L p c then [(Some c, cs)] else [])"
| "rx_match L Spaces st = run_of is_space (snd st)"
| "rx_match L Words st = run_of (re_word L) (snd st)"
| "rx_match L Bound st = (if at_boundary L st then [st] else [])"
| "rx_match L (Seq a b) st = concat (map (rx_match L b) (rx_match L a st))"
| "rx_match L (Alt a b) st = rx_match L a st @ rx_match L b st"
| "rx_match L Eps st = [st]"

fun rx_search_from :: "pylib \<Rightarrow> rx \<Rightarrow> nat option \<Rightarrow> ustring \<Rightarrow> bool" where
  "rx_search_from L r prev [] = (rx_match L r (prev, []) \<noteq> [])"
| "rx_search_from L r prev (c # cs) =
     (rx_match L r (prev, c # cs) \<noteq> [] \<or> rx_search_from L r (Some c) cs)"

definition re_search :: "pylib \<Rightarrow> rx \<Rightarrow> ustring \<Rightarrow> bool" where
  "re_search L r text = rx_search_from L r None text"

definition rx_str :: "ustring \<Rightarrow> rx" where
  "rx_str s = foldr (\<lambda>c r. Seq (Lit c) r) s Eps"

subsection \<open>Sentences and words\<close>

text \<open>
  \<open>re.split(r'[.!?]+', text)\<close>: the pieces between the runs of \<open>. ! ?\<close>, the empty piece
  before a run at the start and after a run at the end included. \<open>in_run\<close> says that the
  character before was one of the three.
\<close>

definition is_end_punct :: "nat \<Rightarrow> bool" where
  "is_end_punct c \<longleftrightarrow> c = 46 \<or> c = 33 \<or> c = 63"

fun split_pieces :: "ustring \<Rightarrow> bool \<Rightarrow> ustring \<Rightarrow> ustring list" where
  "split_pieces cur in_run [] = [cur]"
| "split_pieces cur in_run (c # cs) =
     (if is_end_punct c then
        (if in_run then split_pieces [] True cs else cur # split_pieces [] True cs)
      else split_pieces (cur @ [c]) False cs)"

definition re_split_sentences :: "ustring \<Rightarrow> ustring list" where
  "re_split_sentences text = split_pieces [] False text"

text \<open>\<open>s.split()\<close>: the maximal runs of characters that are not whitespace.\<close>

fun split_words :: "ustring \<Rightarrow> ustring \<Rightarrow> ustring list" where
  "split_words cur [] = (if cur = [] then [] else [cur])"
| "split_words cur (c # cs) =
     (if is_space c then (if cur = [] then split_words [] cs else cur # split_words [] cs)
      else split_words (cur @ [c]) cs)"

definition py_split :: "ustring \<Rightarrow> ustring list" where
  "py_split s = split_words [] s"

subsection \<open>\<open>quick_analysis\<close> (main.py)\<close>

definition fillers :: "ustring list" where
  "fillers = [u ''actually'', u ''basically'', u ''really'', u ''very'']"

definition long_sentences :: "ustring \<Rightarrow> ustring list" where
  "long_sentences text = filter (\<lambda>s. 25 < length (py_split s)) (re_split_sentences text)"

definition quick_analysis :: "pylib \<Rightarrow> ustring \<Rightarrow> ustring list" where
  "quick_analysis L text =
     (let issues1 =
            (if re_search L
                  (Seq (Alt (rx_str (u ''should be'')) (Alt (rx_str (u ''can be'')) (rx_str (u ''will be''))))
                     (Seq Spaces (Seq Words (rx_str (u ''ed''))))) text
             then [[9888, 65039] @ u '' **Passive Voice**: Use active voice for clearer instructions'']
             else []);
          issues2 = issues1 @
            (if re_search L (Seq Bound (Seq (rx_str (u ''will'')) (Seq Spaces Words))) text
             then [[9888, 65039] @ u '' **Future Tense**: Use present tense ('' @ [39] @
                   u ''returns'' @ [39] @ u '' not '' @ [39] @ u ''will return'' @ [39] @ u '')'']
             else []);
          found_fillers =
            filter (\<lambda>word. re_search L (Seq Bound (Seq (rx_str word) Bound)) text) fillers;
          issues3 = issues2 @
            (if found_fillers \<noteq> []
             then [[9888, 65039] @ u '' **Wordiness**: Remove unnecessary words: '' @
                   join (u '', '') found_fillers]
             else []);
          issues4 = issues3 @
            (if re_search L
                  (Seq Bound
                     (Seq (Alt (rx_str (u ''the button''))
                             (Alt (rx_str (u ''the link'')) (rx_str (u ''the field''))))
                        Bound)) text
             then [[9888, 65039] @ u '' **Vague Reference**: Be specific ('' @ [39] @
                   u ''Save button'' @ [39] @ u '' not '' @ [39] @ u ''the button'' @ [39] @ u '')'']
             else []);
          long_sentences = long_sentences text
      in issues4 @
         (if long_sentences \<noteq> []
          then [[9888, 65039] @ u '' **Long Sentences**: '' @ str_of_nat (length long_sentences) @
                u '' sentences over 25 words'']
          else []))"

subsection \<open>\<open>analyze_technical_writing_issues\<close> (app.py)\<close>

record issue =
  i_type :: ustring
  i_priority :: ustring
  i_suggestion :: ustring

definition analyze_technical_writing_issues :: "pylib \<Rightarrow> ustring \<Rightarrow> issue list" where
  "analyze_technical_writing_issues L text =
     (let passive_patterns =
            [Seq (rx_str (u ''should be'')) (Seq Spaces (Seq Words (rx_str (u ''ed'')))),
             Seq (rx_str (u ''can be'')) (Seq Spaces (Seq Words (rx_str (u ''ed'')))),
             Seq (rx_str (u ''will be'')) (Seq Spaces (Seq Words (rx_str (u ''ed''))))];
          issues1 =
            map (\<lambda>pattern. \<lparr>i_type = u ''Passive Voice'', i_priority = u ''High'',
                             i_suggestion = u ''Use active voice in instructions''\<rparr>)
              (filter (\<lambda>pattern. re_search L pattern text) passive_patterns);
          issues2 = issues1 @
            (if re_search L (Seq Bound (Seq (rx_str (u ''will'')) (Seq Spaces Words))) text
             then [\<lparr>i_type = u ''Future Tense'', i_priority = u ''Medium'',
                    i_suggestion = u ''Use present tense: '' @ [39] @ u ''returns'' @ [39] @
                      u '' not '' @ [39] @ u ''will return'' @ [39]\<rparr>]
             else []);
          filler_words = [u ''actually'', u ''basically'', u ''really'', u ''very''];
          issues3 = issues2 @
            map (\<lambda>word. \<lparr>i_type = u ''Wordiness'', i_priority = u ''High'',
                          i_suggestion = u ''Remove unnecessary '' @ [39] @ word @ [39]\<rparr>)
              (filter (\<lambda>word. re_search L (Seq Bound (Seq (rx_str word) Bound)) text)
                 filler_words)
      in issues3 @
         (if re_search L
               (Alt (Seq Bound (Seq (rx_str (u ''the button'')) Bound))
                  (Alt (Seq Bound (Seq (rx_str (u ''the link'')) Bound))
                     (Seq Bound (Seq (rx_str (u ''the field'')) Bound)))) text
          then [\<lparr>i_type = u ''Vague UI Reference'', i_priority = u ''High'',
                 i_suggestion = u ''Specify UI elements: '' @ [39] @ u ''the Save button'' @ [39] @
                   u '' not '' @ [39] @ u ''the button'' @ [39]\<rparr>]
          else []))"


section \<open>Properties of the Heuristic Checker\<close>

lemmas rx_eval =
  re_search_def rx_str_def at_boundary_def is_space_def is_end_punct_def
  ascii_lib_def ascii_lower_def ascii_word_def u_def

definition long_sentences_entry :: "nat \<Rightarrow> ustring" where
  "long_sentences_entry n =
     [9888, 65039] @ u '' **Long Sentences**: '' @ str_of_nat n @ u '' sentences over 25 words''"

lemma quick_analysis_last:
  assumes "long_sentences text \<noteq> []"
  shows "last (quick_analysis L text) = long_sentences_entry (length (long_sentences text))"
    and "long_sentences_entry (length (long_sentences text)) \<in> set (quick_analysis L text)"
  using assms by (simp_all add: quick_analysis_def Let_def long_sentences_entry_def)

lemma quick_analysis_only_entry:
  assumes "e \<in> set (quick_analysis L text)"
    and "prefix ([9888, 65039] @ u '' **Long Sentences**: '') e"
  shows "e = long_sentences_entry (length (long_sentences text))"
  using assms
  by (auto simp: quick_analysis_def Let_def long_sentences_entry_def u_def split: if_splits)

lemma analyze_types:
  "i \<in> set (analyze_technical_writing_issues L text) \<Longrightarrow>
   i_type i \<in> {u ''Passive Voice'', u ''Future Tense'', u ''Wordiness'', u ''Vague UI Reference''}"
  unfolding analyze_technical_writing_issues_def Let_def set_append set_map
  by (auto simp del: filter.simps split: if_splits)

text \<open>
  Claim C4, as amended. For every text with at least one sentence of more than 25 words
  (the sentences being the pieces of the text between runs of \<open>. ! ?\<close>, the words of a
  sentence its runs of non-whitespace), the list of \<open>quick_analysis\<close> of main.py ends with
  the Long Sentences entry, whose count is the number of such sentences, and has no other
  Long Sentences entry. \<open>analyze_technical_writing_issues\<close> of app.py has no rule on the
  length of sentences: none of its issues is of the type Long Sentences.
\<close>

theorem long_sentences_reported:
  assumes "long_sentences text \<noteq> []"
  shows "long_sentences_entry (length (long_sentences text)) \<in> set (quick_analysis L text) \<and>
         last (quick_analysis L text) = long_sentences_entry (length (long_sentences text)) \<and>
         (\<forall>e \<in> set (quick_analysis L text).
            prefix ([9888, 65039] @ u '' **Long Sentences**: '') e \<longrightarrow>
            e = long_sentences_entry (length (long_sentences text))) \<and>
         (\<forall>i \<in> set (analyze_technical_writing_issues L text). i_type i \<noteq> u ''Long Sentences'')"
proof -
  have "i_type i \<noteq> u ''Long Sentences''"
    if "i \<in> set (analyze_technical_writing_issues L text)" for i
    using analyze_types[OF that] by (auto simp: u_def)
  with quick_analysis_last[OF assms] quick_analysis_only_entry show ?thesis by blast
qed

theorem long_sentences_reported_witness:
  "long_sentences (u ''a a a a a a a a a a a a a a a a a a a a a a a a a a. Short one.'') =
     [u ''a a a a a a a a a a a a a a a a a a a a a a a a a a''] \<and>
   last (quick_analysis ascii_lib (u ''a a a a a a a a a a a a a a a a a a a a a a a a a a. Short one.'')) =
     [9888, 65039] @ u '' **Long Sentences**: 1 sentences over 25 words''"
proof -
  have l: "long_sentences (u ''a a a a a a a a a a a a a a a a a a a a a a a a a a. Short one.'') =
     [u ''a a a a a a a a a a a a a a a a a a a a a a a a a a'']"
    by (simp add: long_sentences_def re_split_sentences_def py_split_def is_space_def
        is_end_punct_def u_def)
  then have "long_sentences (u ''a a a a a a a a a a a a a a a a a a a a a a a a a a. Short one.'') \<noteq> []"
    by simp
  from long_sentences_reported[OF this, of ascii_lib] l show ?thesis
    by (simp add: long_sentences_entry_def str_of_nat_def str_of_int_def u_def)
qed

text \<open>
  The claim as stated holds of both entry points. The checker of app.py reports nothing for
  a text whose one sentence has 26 words.
\<close>

theorem no_long_sentences_rule_counterexample:
  "length (long_sentences (u ''a a a a a a a a a a a a a a a a a a a a a a a a a a.'')) = 1 \<and>
   analyze_technical_writing_issues ascii_lib
     (u ''a a a a a a a a a a a a a a a a a a a a a a a a a a.'') = []"
proof -
  have 1: "length (long_sentences (u ''a a a a a a a a a a a a a a a a a a a a a a a a a a.'')) = 1"
    by (simp add: long_sentences_def re_split_sentences_def py_split_def is_space_def
        is_end_punct_def u_def)
  have 2: "analyze_technical_writing_issues ascii_lib
     (u ''a a a a a a a a a a a a a a a a a a a a a a a a a a.'') = []"
    apply (simp only: analyze_technical_writing_issues_def Let_def filter.simps list.map)
    apply (simp add: rx_eval)
    done
  from 1 2 show ?thesis by blast
qed

text \<open>The scenario of the specification: both checkers flag the passive voice and the vague reference.\<close>

lemma scenario_button:
  "quick_analysis ascii_lib (u ''The button should be clicked to save.'') =
     [[9888, 65039] @ u '' **Passive Voice**: Use active voice for clearer instructions'',
      [9888, 65039] @ u '' **Vague Reference**: Be specific ('' @ [39] @ u ''Save button'' @ [39] @
        u '' not '' @ [39] @ u ''the button'' @ [39] @ u '')'']"
  apply (simp only: quick_analysis_def Let_def fillers_def filter.simps list.map)
  apply (simp add: rx_eval long_sentences_def re_split_sentences_def py_split_def)
  done

section \<open>The agents of main.py\<close>

text \<open>
  \<open>d.get(k, default)\<close>, and \<open>x[:n] if x else default\<close> for an \<open>x\<close> that is a string or
  \<open>None\<close> (the empty string is false as well).
\<close>

definition dict_get :: "('k \<rightharpoonup> 'v) \<Rightarrow> 'k \<Rightarrow> 'v \<Rightarrow> 'v" where
  "dict_get d k dflt = (case d k of Some v \<Rightarrow> v | None \<Rightarrow> dflt)"

definition slice_or :: "ustring option \<Rightarrow> nat \<Rightarrow> ustring \<Rightarrow> ustring" where
  "slice_or x n dflt =
     (case x of Some s \<Rightarrow> if s \<noteq> [] then take n s else dflt | None \<Rightarrow> dflt)"

text \<open>
  \<open>client.chat.completions.create(...)\<close> followed by \<open>response.choices[0].message.content\<close>:
  the request is recorded, and the environment gives the text of the completion or the
  message of the exception (\<open>Inl\<close>), which every agent catches. A missing client
  (\<open>client = None\<close>) is one of the exceptions.
\<close>

definition chat_completion :: "env \<Rightarrow> llm_request \<Rightarrow> world \<Rightarrow> (ustring + ustring) \<times> world" where
  "chat_completion E rq w =
     (chat_create E (length (llm_calls w)) rq, w\<lparr>llm_calls := llm_calls w @ [rq]\<rparr>)"

subsection \<open>Content Analyzer and Style Guide Enforcer\<close>

definition content_system_prompt ::
  "ustring option \<Rightarrow> ustring option \<Rightarrow> ustring option \<Rightarrow> ustring" where
  "content_system_prompt content_guide wordiness_examples clarity_examples =
          nl @ u ''    You are a Content Analyzer Agent specializing in technical'' @
          u '' documentation quality.'' @ nl @ nl @ u ''    Focus on identifying:'' @ nl @
          u ''    1. Wordiness and filler text'' @ nl @
          u ''    2. Vague language and unclear references  '' @ nl @
          u ''    3. Missing context and logical gaps'' @ nl @
          u ''    4. Abstract content lacking visualization'' @ nl @
          u ''    5. Redundant information'' @ nl @
          u ''    6. Missing outcomes and value statements'' @ nl @ nl @
          u ''    Content Guide Reference:'' @ nl @ u ''    '' @
          slice_or content_guide 1500 (u ''Guide not available'') @ nl @ nl @
          u ''    Wordiness Examples:'' @ nl @ u ''    '' @
          slice_or wordiness_examples 800 (u ''Examples not available'') @ nl @ nl @
          u ''    Clarity Examples:'' @ nl @ u ''    '' @
          slice_or clarity_examples 800 (u ''Examples not available'') @ nl @ nl @
          u ''    Provide specific examples and actionable suggestions.'' @ nl @ u ''    ''"

definition content_user_prompt :: "ustring \<Rightarrow> (ustring \<rightharpoonup> ustring) \<Rightarrow> ustring" where
  "content_user_prompt document_text doc_metadata =
          nl @ u ''    Analyze this '' @ dict_get doc_metadata (u ''type'') (u ''document'') @
          u '' for content quality issues:'' @ nl @ u ''    '' @ nl @ u ''    Title: '' @
          dict_get doc_metadata (u ''title'') (u ''Untitled'') @ nl @ u ''    '' @ nl @
          u ''    Content:'' @ nl @ u ''    '' @ document_text @ nl @ u ''    '' @ nl @
          u ''    Focus on clarity, precision, and reader comprehension.'' @ nl @ u ''    ''"

definition run_content_analysis ::
  "pylib \<Rightarrow> env \<Rightarrow> ustring \<Rightarrow> (ustring \<rightharpoonup> ustring) \<Rightarrow> world \<Rightarrow> report \<times> world" where
  "run_content_analysis L E document_text doc_metadata w =
     (let w0 = log_system_message L E (u ''Content Analyzer: Starting analysis'') w;
          (content_guide, w1) = fetch_documentation L E (u ''content_classification_guide'') w0;
          (wordiness_examples, w2) = fetch_documentation L E (u ''wordiness_examples'') w1;
          (clarity_examples, w3) = fetch_documentation L E (u ''clarity_examples'') w2;
          system_prompt = content_system_prompt content_guide wordiness_examples clarity_examples;
          user_prompt = content_user_prompt document_text doc_metadata;
          (response, w4) = chat_completion E
             \<lparr>rq_model = u ''gpt-4'',
              rq_messages = [(u ''system'', system_prompt), (u ''user'', user_prompt)],
              rq_max_tokens = 1000, rq_temperature = 0.2\<rparr> w3
      in case response of
           Inr analysis \<Rightarrow>
             (Findings (u ''Content Analyzer'') analysis,
              log_system_message L E (u ''Content Analyzer: Analysis completed'') w4)
         | Inl e \<Rightarrow>
             (Failed (u ''Content Analyzer'') e,
              log_system_message L E (u ''Content Analyzer: Error - '' @ e) w4))"

definition style_system_prompt :: "ustring option \<Rightarrow> ustring option \<Rightarrow> ustring" where
  "style_system_prompt style_guide quick_reference =
          nl @ u ''    You are a Style Guide Enforcer Agent specializing in technical'' @
          u '' writing standards.'' @ nl @ nl @ u ''    Check for:'' @ nl @
          u ''    1. Active vs passive voice'' @ nl @ u ''    2. Present tense usage'' @ nl @
          u ''    3. Sentence length (max 26 words)'' @ nl @
          u ''    4. UI element specifications'' @ nl @ u ''    5. Capitalization and formatting'' @
          nl @ u ''    6. Grammar and punctuation'' @ nl @ nl @ u ''    Style Guide Reference:'' @
          nl @ u ''    '' @ slice_or style_guide 1500 (u ''Guide not available'') @ nl @ nl @
          u ''    Quick Reference:'' @ nl @ u ''    '' @
          slice_or quick_reference 800 (u ''Reference not available'') @ nl @ nl @
          u ''    Identify specific violations with corrections.'' @ nl @ u ''    ''"

definition style_user_prompt :: "ustring \<Rightarrow> (ustring \<rightharpoonup> ustring) \<Rightarrow> ustring" where
  "style_user_prompt document_text doc_metadata =
          nl @ u ''    Check this '' @ dict_get doc_metadata (u ''type'') (u ''document'') @
          u '' for style guide compliance:'' @ nl @ u ''    '' @ nl @ u ''    Title: '' @
          dict_get doc_metadata (u ''title'') (u ''Untitled'') @ nl @ u ''    '' @ nl @
          u ''    Content:'' @ nl @ u ''    '' @ document_text @ nl @ u ''    '' @ nl @
          u ''    Focus on voice, tense, and formatting standards.'' @ nl @ u ''    ''"

definition run_style_analysis ::
  "pylib \<Rightarrow> env \<Rightarrow> ustring \<Rightarrow> (ustring \<rightharpoonup> ustring) \<Rightarrow> world \<Rightarrow> report \<times> world" where
  "run_style_analysis L E document_text doc_metadata w =
     (let w0 = log_system_message L E (u ''Style Guide Enforcer: Starting compliance check'') w;
          (style_guide, w1) = fetch_documentation L E (u ''style_guide'') w0;
          (quick_reference, w2) = fetch_documentation L E (u ''quick_reference'') w1;
          system_prompt = style_system_prompt style_guide quick_reference;
          user_prompt = style_user_prompt document_text doc_metadata;
          (response, w3) = chat_completion E
             \<lparr>rq_model = u ''gpt-4'',
              rq_messages = [(u ''system'', system_prompt), (u ''user'', user_prompt)],
              rq_max_tokens = 1000, rq_temperature = 0.1\<rparr> w2
      in case response of
           Inr compliance_check \<Rightarrow>
             (Findings (u ''Style Guide Enforcer'') compliance_check,
              log_system_message L E (u ''Style Guide Enforcer: Check completed'') w3)
         | Inl e \<Rightarrow>
             (Failed (u ''Style Guide Enforcer'') e,
              log_system_message L E (u ''Style Guide Enforcer: Error - '' @ e) w3))"

subsection \<open>Editorial Synthesizer\<close>

text \<open>
  The loop that combines the reports: the findings of a report, or else its error, each
  under a heading with the agent's name.
\<close>

fun report_section :: "report \<Rightarrow> ustring" where
  "report_section (Findings agent findings) =
     nl @ u ''--- '' @ agent @ u '' Report ---'' @ nl @ findings @ nl"
| "report_section (Failed agent error) =
     nl @ u ''--- '' @ agent @ u '' ---'' @ nl @ u ''Error: '' @ error @ nl"

definition combine_reports :: "report list \<Rightarrow> ustring" where
  "combine_reports agent_reports = foldl (\<lambda>combined_findings report.
     combined_findings @ report_section report) [] agent_reports"

definition synthesis_system_prompt :: ustring where
  "synthesis_system_prompt =
          nl @ u ''    You are a Senior Editor Agent coordinating technical'' @
          u '' documentation review.'' @ nl @ nl @ u ''    Responsibilities:'' @ nl @
          u ''    1. Synthesize findings from specialist agents'' @ nl @
          u ''    2. Prioritize issues by impact'' @ nl @
          u ''    3. Provide clear, actionable recommendations'' @ nl @
          u ''    4. Create comprehensive editorial guidance'' @ nl @
          u ''    5. Offer to provide a rewritten draft'' @ nl @ nl @
          u ''    Create a professional review combining all specialist insights.'' @ nl @
          u ''    ''"

definition synthesis_user_prompt ::
  "ustring \<Rightarrow> (ustring \<rightharpoonup> ustring) \<Rightarrow> ustring \<Rightarrow> ustring" where
  "synthesis_user_prompt document_text doc_metadata combined_findings =
          nl @ u ''    Create comprehensive editorial review based on specialist agent'' @
          u '' reports:'' @ nl @ u ''    '' @ nl @ u ''    Document: '' @
          dict_get doc_metadata (u ''title'') (u ''Untitled'') @ u '' ('' @
          dict_get doc_metadata (u ''type'') (u ''Unknown'') @ u '')'' @ nl @ u ''    '' @ nl @
          u ''    SPECIALIST FINDINGS:'' @ nl @ u ''    '' @ combined_findings @ nl @ u ''    '' @
          nl @ u ''    DOCUMENT PREVIEW:'' @ nl @ u ''    '' @ take 800 document_text @ u ''...'' @
          nl @ u ''    '' @ nl @ u ''    Provide:'' @ nl @ u ''    1. Executive summary'' @ nl @
          u ''    2. Priority issues'' @ nl @ u ''    3. Specific improvements'' @ nl @
          u ''    4. Overall assessment'' @ nl @ u ''    ''"

definition synthesis_request ::
  "ustring \<Rightarrow> (ustring \<rightharpoonup> ustring) \<Rightarrow> report list \<Rightarrow> llm_request" where
  "synthesis_request document_text doc_metadata agent_reports =
     \<lparr>rq_model = u ''gpt-4'',
      rq_messages =
        [(u ''system'', synthesis_system_prompt),
         (u ''user'',
          synthesis_user_prompt document_text doc_metadata (combine_reports agent_reports))],
      rq_max_tokens = 1500, rq_temperature = 0.3\<rparr>"

definition run_editorial_synthesis ::
  "pylib \<Rightarrow> env \<Rightarrow> ustring \<Rightarrow> (ustring \<rightharpoonup> ustring) \<Rightarrow> report list \<Rightarrow> world \<Rightarrow>
   result \<times> world" where
  "run_editorial_synthesis L E document_text doc_metadata agent_reports w =
     (let w0 = log_system_message L E (u ''Senior Editor: Synthesizing review'') w;
          (response, w1) =
            chat_completion E (synthesis_request document_text doc_metadata agent_reports) w0
      in case response of
           Inr editorial_review \<Rightarrow>
             (Review (u ''Senior Editor'') editorial_review agent_reports,
              log_system_message L E (u ''Senior Editor: Review completed'') w1)
         | Inl e \<Rightarrow>
             (AgentError (u ''Senior Editor'') e,
              log_system_message L E (u ''Senior Editor: Error - '' @ e) w1))"

subsection \<open>Orchestrator\<close>

text \<open>
  \<open>run_multi_agent_review\<close>. None of the three coroutines of the first phase awaits
  anything, so \<open>asyncio.gather\<close> runs them one after the other, in the order given. Each
  agent catches the exceptions of its own requests; the handler of the orchestrator, which
  returns the dictionary with the key \<open>error\<close> alone, is for exceptions that the
  environment of this model does not raise.
\<close>

definition run_multi_agent_review ::
  "pylib \<Rightarrow> env \<Rightarrow> ustring \<Rightarrow> (ustring \<rightharpoonup> ustring) \<Rightarrow> world \<Rightarrow> result \<times> world" where
  "run_multi_agent_review L E document_text doc_metadata w =
     (let w0 = log_system_message L E (u ''Orchestrator: Starting multi-agent review'') w;
          (content_result, w1) = run_content_analysis L E document_text doc_metadata w0;
          (style_result, w2) = run_style_analysis L E document_text doc_metadata w1;
          (link_result, w3) = run_link_validation L E document_text doc_metadata w2;
          agent_reports = [content_result, style_result, link_result];
          (editorial_result, w4) =
            run_editorial_synthesis L E document_text doc_metadata agent_reports w3
      in (editorial_result,
          log_system_message L E (u ''Orchestrator: Multi-agent review completed'') w4))"

text \<open>\<open>"error" in result\<close>.\<close>

fun is_error :: "result \<Rightarrow> bool" where
  "is_error (AgentError agent e) = True"
| "is_error (OrchestratorError e) = True"
| "is_error r = False"


section \<open>Properties of the synthesis\<close>

lemma py_in_appendI:
  "py_in x a \<Longrightarrow> py_in x (a @ b)" "py_in x b \<Longrightarrow> py_in x (a @ b)" "py_in x x"
  "py_in x b \<Longrightarrow> py_in x (c # b)"
  unfolding py_in_def
  by (auto intro: sublist_appendI sublist_order.order_trans simp: sublist_Cons_right)

lemma fetch_from_github_llm_calls:
  "llm_calls (snd (fetch_from_github L E k now w)) = llm_calls w"
  by (simp add: fetch_from_github_def Let_def split: option.splits sum.splits)

lemma fetch_documentation_llm_calls:
  "llm_calls (snd (fetch_documentation L E k w)) = llm_calls w"
  by (simp add: fetch_documentation_def Let_def fetch_from_github_llm_calls split: option.splits)

lemma run_content_analysis_result:
  "\<exists>rq. fst (run_content_analysis L E t m w) =
          (case chat_create E (length (llm_calls w)) rq of
             Inr analysis \<Rightarrow> Findings (u ''Content Analyzer'') analysis
           | Inl e \<Rightarrow> Failed (u ''Content Analyzer'') e) \<and>
        llm_calls (snd (run_content_analysis L E t m w)) = llm_calls w @ [rq]"
proof -
  let ?w0 = "log_system_message L E (u ''Content Analyzer: Starting analysis'') w"
  obtain g1 w1 where f1: "fetch_documentation L E (u ''content_classification_guide'') ?w0 = (g1, w1)"
    by (cases "fetch_documentation L E (u ''content_classification_guide'') ?w0")
  obtain g2 w2 where f2: "fetch_documentation L E (u ''wordiness_examples'') w1 = (g2, w2)"
    by (cases "fetch_documentation L E (u ''wordiness_examples'') w1")
  obtain g3 w3 where f3: "fetch_documentation L E (u ''clarity_examples'') w2 = (g3, w3)"
    by (cases "fetch_documentation L E (u ''clarity_examples'') w2")
  have "llm_calls w1 = llm_calls ?w0" "llm_calls w2 = llm_calls w1" "llm_calls w3 = llm_calls w2"
    using fetch_documentation_llm_calls[of L E _ ?w0] fetch_documentation_llm_calls[of L E _ w1]
      fetch_documentation_llm_calls[of L E _ w2] f1 f2 f3 by (metis snd_conv)+
  then have l: "llm_calls w3 = llm_calls w" by simp
  show ?thesis
    by (rule exI[of _ "\<lparr>rq_model = u ''gpt-4'',
              rq_messages = [(u ''system'', content_system_prompt g1 g2 g3),
                             (u ''user'', content_user_prompt t m)],
              rq_max_tokens = 1000, rq_temperature = 0.2\<rparr>"])
       (simp add: run_content_analysis_def Let_def f1 f2 f3 chat_completion_def l split: sum.splits)
qed

lemma run_style_analysis_result:
  "\<exists>rq. fst (run_style_analysis L E t m w) =
          (case chat_create E (length (llm_calls w)) rq of
             Inr compliance_check \<Rightarrow> Findings (u ''Style Guide Enforcer'') compliance_check
           | Inl e \<Rightarrow> Failed (u ''Style Guide Enforcer'') e) \<and>
        llm_calls (snd (run_style_analysis L E t m w)) = llm_calls w @ [rq]"
proof -
  let ?w0 = "log_system_message L E (u ''Style Guide Enforcer: Starting compliance check'') w"
  obtain g1 w1 where f1: "fetch_documentation L E (u ''style_guide'') ?w0 = (g1, w1)"
    by (cases "fetch_documentation L E (u ''style_guide'') ?w0")
  obtain g2 w2 where f2: "fetch_documentation L E (u ''quick_reference'') w1 = (g2, w2)"
    by (cases "fetch_documentation L E (u ''quick_reference'') w1")
  have "llm_calls w1 = llm_calls ?w0" "llm_calls w2 = llm_calls w1"
    using fetch_documentation_llm_calls[of L E _ ?w0] fetch_documentation_llm_calls[of L E _ w1]
      f1 f2 by (metis snd_conv)+
  then have l: "llm_calls w2 = llm_calls w" by simp
  show ?thesis
    by (rule exI[of _ "\<lparr>rq_model = u ''gpt-4'',
              rq_messages = [(u ''system'', style_system_prompt g1 g2),
                             (u ''user'', style_user_prompt t m)],
              rq_max_tokens = 1000, rq_temperature = 0.1\<rparr>"])
       (simp add: run_style_analysis_def Let_def f1 f2 chat_completion_def l split: sum.splits)
qed

lemma check_all_links_llm_calls:
  "llm_calls (snd (check_all_links L E urls wk iss w)) = llm_calls w"
  by (induction urls arbitrary: wk iss w) (auto simp: Let_def split: sum.splits)

lemma run_link_validation_llm_calls:
  "llm_calls (snd (run_link_validation L E t m w)) = llm_calls w"
proof -
  have "llm_calls (snd (check_all_links L E urls [] [] w')) = llm_calls w'" for urls w'
    by (rule check_all_links_llm_calls)
  then show ?thesis
    by (auto simp: run_link_validation_def Let_def split: sum.splits prod.splits)
       (metis log_system_message_fields(2) snd_conv)+
qed

lemma run_editorial_synthesis_result:
  "fst (run_editorial_synthesis L E t m reports w) =
     (case chat_create E (length (llm_calls w)) (synthesis_request t m reports) of
        Inr review \<Rightarrow> Review (u ''Senior Editor'') review reports
      | Inl e \<Rightarrow> AgentError (u ''Senior Editor'') e)"
  "llm_calls (snd (run_editorial_synthesis L E t m reports w)) =
     llm_calls w @ [synthesis_request t m reports]"
  by (simp_all add: run_editorial_synthesis_def Let_def chat_completion_def split: sum.splits)

lemma error_in_synthesis_prompt:
  assumes "Failed a e \<in> set reports"
  shows "py_in (u ''Error: '' @ e)
           (snd (rq_messages (synthesis_request t m reports) ! 1))"
proof -
  have sec: "py_in (u ''Error: '' @ e) (report_section (Failed a e))"
    by (simp add: py_in_def sublist_def) (metis append.assoc)
  have comb: "py_in x (foldl (\<lambda>acc r. acc @ report_section r) acc rs)"
    if "py_in x acc \<or> (\<exists>r \<in> set rs. py_in x (report_section r))" for x acc rs
    using that
  proof (induction rs arbitrary: acc)
    case Nil
    then show ?case by simp
  next
    case (Cons r rs)
    show ?case
      unfolding foldl_Cons
      by (rule Cons.IH) (use Cons.prems in \<open>auto intro: py_in_appendI\<close>)
  qed
  from assms sec have "py_in (u ''Error: '' @ e) (combine_reports reports)"
    unfolding combine_reports_def by (intro comb) blast
  then show ?thesis
    by (simp add: synthesis_request_def synthesis_user_prompt_def)
       (intro py_in_appendI | assumption)+
qed

lemma run_multi_agent_review_unfold:
  assumes "run_content_analysis L E t m
             (log_system_message L E (u ''Orchestrator: Starting multi-agent review'') w) =
           (r1, w1)"
    and "run_style_analysis L E t m w1 = (r2, w2)"
    and "run_link_validation L E t m w2 = (r3, w3)"
  shows "fst (run_multi_agent_review L E t m w) =
           fst (run_editorial_synthesis L E t m [r1, r2, r3] w3)"
    and "llm_calls (snd (run_multi_agent_review L E t m w)) =
           llm_calls (snd (run_editorial_synthesis L E t m [r1, r2, r3] w3))"
  by (simp_all add: run_multi_agent_review_def Let_def assms split: prod.splits)

lemma run_multi_agent_review_result:
  "\<exists>reports n. fst (run_multi_agent_review L E t m w) =
     (case chat_create E n (synthesis_request t m reports) of
        Inr review \<Rightarrow> Review (u ''Senior Editor'') review reports
      | Inl e \<Rightarrow> AgentError (u ''Senior Editor'') e)"
proof -
  let ?w0 = "log_system_message L E (u ''Orchestrator: Starting multi-agent review'') w"
  obtain r1 w1 where 1: "run_content_analysis L E t m ?w0 = (r1, w1)"
    by (cases "run_content_analysis L E t m ?w0")
  obtain r2 w2 where 2: "run_style_analysis L E t m w1 = (r2, w2)"
    by (cases "run_style_analysis L E t m w1")
  obtain r3 w3 where 3: "run_link_validation L E t m w2 = (r3, w3)"
    by (cases "run_link_validation L E t m w2")
  from run_multi_agent_review_unfold(1)[OF 1 2 3] show ?thesis
    unfolding run_editorial_synthesis_result(1) by blast
qed

text \<open>
  Claim C2, as amended. Whatever the three agents of the first phase return, the
  Orchestrator does not stop: it gives the three reports to the Editorial Synthesizer,
  which issues one completion request, and each report that is an error result is in the
  user prompt of that request as the text \<open>Error:\<close> followed by its message. The result is
  the review returned by the language model, with the reports carried along, when that
  request succeeds; when it fails, the result is the Synthesizer's own error. The same
  holds of the Synthesizer when it is given three error reports: the three messages are in
  its prompt, and its result is a review exactly when its own request succeeds.
\<close>

theorem synthesis_carries_agent_errors:
  assumes "run_content_analysis L E t m
             (log_system_message L E (u ''Orchestrator: Starting multi-agent review'') w) =
           (r1, w1)"
    and "run_style_analysis L E t m w1 = (r2, w2)"
    and "run_link_validation L E t m w2 = (r3, w3)"
  shows "llm_calls (snd (run_multi_agent_review L E t m w)) =
           llm_calls w3 @ [synthesis_request t m [r1, r2, r3]] \<and>
         (\<forall>agent e. Failed agent e \<in> set [r1, r2, r3] \<longrightarrow>
            py_in (u ''Error: '' @ e) (snd (rq_messages (synthesis_request t m [r1, r2, r3]) ! 1))) \<and>
         fst (run_multi_agent_review L E t m w) =
           (case chat_create E (length (llm_calls w3)) (synthesis_request t m [r1, r2, r3]) of
              Inr review \<Rightarrow> Review (u ''Senior Editor'') review [r1, r2, r3]
            | Inl e \<Rightarrow> AgentError (u ''Senior Editor'') e) \<and>
         py_in (u ''Error: '' @ e1)
           (snd (rq_messages (synthesis_request t m [Failed a1 e1, Failed a2 e2, Failed a3 e3]) ! 1)) \<and>
         py_in (u ''Error: '' @ e2)
           (snd (rq_messages (synthesis_request t m [Failed a1 e1, Failed a2 e2, Failed a3 e3]) ! 1)) \<and>
         py_in (u ''Error: '' @ e3)
           (snd (rq_messages (synthesis_request t m [Failed a1 e1, Failed a2 e2, Failed a3 e3]) ! 1)) \<and>
         fst (run_editorial_synthesis L E t m [Failed a1 e1, Failed a2 e2, Failed a3 e3] w') =
           (case chat_create E (length (llm_calls w'))
                   (synthesis_request t m [Failed a1 e1, Failed a2 e2, Failed a3 e3]) of
              Inr review \<Rightarrow>
                Review (u ''Senior Editor'') review [Failed a1 e1, Failed a2 e2, Failed a3 e3]
            | Inl e \<Rightarrow> AgentError (u ''Senior Editor'') e)"
proof -
  have 1: "llm_calls (snd (run_multi_agent_review L E t m w)) =
           llm_calls w3 @ [synthesis_request t m [r1, r2, r3]]"
    by (simp add: run_multi_agent_review_unfold(2)[OF assms] run_editorial_synthesis_result(2))
  have 2: "py_in (u ''Error: '' @ e) (snd (rq_messages (synthesis_request t m [r1, r2, r3]) ! 1))"
    if "Failed agent e \<in> set [r1, r2, r3]" for agent e
    using that by (rule error_in_synthesis_prompt)
  have 3: "fst (run_multi_agent_review L E t m w) =
           (case chat_create E (length (llm_calls w3)) (synthesis_request t m [r1, r2, r3]) of
              Inr review \<Rightarrow> Review (u ''Senior Editor'') review [r1, r2, r3]
            | Inl e \<Rightarrow> AgentError (u ''Senior Editor'') e)"
    by (simp add: run_multi_agent_review_unfold(1)[OF assms] run_editorial_synthesis_result(1))
  have 4: "py_in (u ''Error: '' @ e)
           (snd (rq_messages (synthesis_request t m [Failed a1 e1, Failed a2 e2, Failed a3 e3]) ! 1))"
    if "e = e1 \<or> e = e2 \<or> e = e3" for e
    using that error_in_synthesis_prompt[of _ e "[Failed a1 e1, Failed a2 e2, Failed a3 e3]" t m]
    by auto
  from 1 2 3 4 show ?thesis
    by (simp only: run_editorial_synthesis_result(1)) blast
qed

text \<open>
  An outage of the language-model API during the first phase: the first two completion
  requests fail and the later ones succeed; the links answer 200.
\<close>

definition outage_env :: env where
  "outage_env =
     quiet_env\<lparr>chat_create := (\<lambda>k rq. if k < 2 then Inl (u ''Connection error.'')
                                   else Inr (u ''Best-effort review.''))\<rparr>"

theorem synthesis_carries_agent_errors_witness:
  "fst (run_multi_agent_review ascii_lib outage_env (u ''See http://a.example/x for details.'')
          Map.empty fresh_world) =
     Review (u ''Senior Editor'') (u ''Best-effort review.'')
       [Failed (u ''Content Analyzer'') (u ''Connection error.''),
        Failed (u ''Style Guide Enforcer'') (u ''Connection error.''),
        Findings (u ''Link Validator'')
          (u ''**Link Validation Report** (1 links checked)'' @ nl @ nl @
           9989 # u '' **1 working links** - No action needed'' @ nl @ nl @
           127881 # u '' **All links are working perfectly!**'')] \<and>
   py_in (u ''Error: Connection error.'')
     (snd (rq_messages (last (llm_calls (snd (run_multi_agent_review ascii_lib outage_env
          (u ''See http://a.example/x for details.'') Map.empty fresh_world)))) ! 1)) \<and>
   py_in (u ''Error: boom'')
     (snd (rq_messages (synthesis_request (u ''See http://a.example/x for details.'') Map.empty
        [Failed (u ''Content Analyzer'') (u ''Connection error.''),
         Failed (u ''Style Guide Enforcer'') (u ''Connection error.''),
         Failed (u ''Link Validator'') (u ''boom'')]) ! 1))"
proof -
  let ?t = "u ''See http://a.example/x for details.''"
  let ?m = "Map.empty :: ustring \<rightharpoonup> ustring"
  let ?w0 = "log_system_message ascii_lib outage_env
               (u ''Orchestrator: Starting multi-agent review'') fresh_world"
  let ?c = "run_content_analysis ascii_lib outage_env ?t ?m ?w0"
  let ?s = "run_style_analysis ascii_lib outage_env ?t ?m (snd ?c)"
  let ?l = "run_link_validation ascii_lib outage_env ?t ?m (snd ?s)"
  let ?f = "Findings (u ''Link Validator'')
          (u ''**Link Validation Report** (1 links checked)'' @ nl @ nl @
           9989 # u '' **1 working links** - No action needed'' @ nl @ nl @
           127881 # u '' **All links are working perfectly!**'')"
  let ?rs = "[Failed (u ''Content Analyzer'') (u ''Connection error.''),
        Failed (u ''Style Guide Enforcer'') (u ''Connection error.''), ?f]"
  have k: "chat_create outage_env 0 rq = Inl (u ''Connection error.'')"
    "chat_create outage_env (Suc 0) rq = Inl (u ''Connection error.'')"
    "chat_create outage_env (Suc (Suc 0)) rq = Inr (u ''Best-effort review.'')" for rq
    by (simp_all add: outage_env_def quiet_env_def)
  have l0: "llm_calls ?w0 = []" by (simp add: fresh_world_def)
  from run_content_analysis_result[of ascii_lib outage_env ?t ?m ?w0] l0 k
  have c: "fst ?c = Failed (u ''Content Analyzer'') (u ''Connection error.'')"
    and lc: "length (llm_calls (snd ?c)) = Suc 0"
    by auto
  from run_style_analysis_result[of ascii_lib outage_env ?t ?m "snd ?c"] lc k
  have s: "fst ?s = Failed (u ''Style Guide Enforcer'') (u ''Connection error.'')"
    and ls: "length (llm_calls (snd ?s)) = Suc (Suc 0)"
    by auto
  have l: "fst ?l = ?f"
    by (simp add: link_eval outage_env_def)
  have ll: "length (llm_calls (snd ?l)) = Suc (Suc 0)"
    using ls by (simp add: run_link_validation_llm_calls)
  have a1: "?c = (Failed (u ''Content Analyzer'') (u ''Connection error.''), snd ?c)"
    by (rule prod_eqI) (simp_all only: c fst_conv snd_conv)
  have a2: "?s = (Failed (u ''Style Guide Enforcer'') (u ''Connection error.''), snd ?s)"
    by (rule prod_eqI) (simp_all only: s fst_conv snd_conv)
  have a3: "?l = (?f, snd ?l)"
    by (rule prod_eqI) (simp_all only: l fst_conv snd_conv)
  note t = synthesis_carries_agent_errors[OF a1 a2 a3,
      of "u ''Connection error.''" "u ''Content Analyzer''" "u ''Style Guide Enforcer''"
         "u ''Connection error.''" "u ''Link Validator''" "u ''boom''"]
  from t have rq: "last (llm_calls (snd (run_multi_agent_review ascii_lib outage_env ?t ?m fresh_world))) =
      synthesis_request ?t ?m ?rs"
    by simp
  have e: "u ''Error: '' @ u ''Connection error.'' = u ''Error: Connection error.''"
    "u ''Error: '' @ u ''boom'' = u ''Error: boom''"
    by (simp_all add: u_def)
  from t have 1: "fst (run_multi_agent_review ascii_lib outage_env ?t ?m fresh_world) =
     Review (u ''Senior Editor'') (u ''Best-effort review.'') ?rs"
    by (simp add: ll k)
  from t have "py_in (u ''Error: '' @ u ''Connection error.'')
      (snd (rq_messages (synthesis_request ?t ?m ?rs) ! 1))"
    by (simp del: nth_Cons_Suc)
  then have 2: "py_in (u ''Error: Connection error.'')
     (snd (rq_messages (last (llm_calls (snd (run_multi_agent_review ascii_lib outage_env
          ?t ?m fresh_world)))) ! 1))"
    unfolding rq e by simp
  from t have 3: "py_in (u ''Error: boom'')
     (snd (rq_messages (synthesis_request ?t ?m
        [Failed (u ''Content Analyzer'') (u ''Connection error.''),
         Failed (u ''Style Guide Enforcer'') (u ''Connection error.''),
         Failed (u ''Link Validator'') (u ''boom'')]) ! 1))"
    unfolding e[symmetric] by blast
  from 1 2 3 show ?thesis by blast
qed

text \<open>
  The claim as stated promises a result without error whose text refers to the errors.
  When the API is out for every request, the Content Analyzer and the Style Guide Enforcer
  return error results and the whole review is the error of the Synthesizer, whose own
  completion request fails as well. Given three error reports, the Synthesizer returns that
  error in the same way; and when its request succeeds, the text of the review is whatever
  the language model answered, here a text that mentions none of the errors.
\<close>

theorem synthesis_outage_counterexample:
  "fst (run_content_analysis ascii_lib
          (quiet_env\<lparr>chat_create := (\<lambda>k rq. Inl (u ''Connection error.''))\<rparr>)
          (u ''Click the button.'') Map.empty
          (log_system_message ascii_lib
             (quiet_env\<lparr>chat_create := (\<lambda>k rq. Inl (u ''Connection error.''))\<rparr>)
             (u ''Orchestrator: Starting multi-agent review'') fresh_world)) =
     Failed (u ''Content Analyzer'') (u ''Connection error.'') \<and>
   fst (run_style_analysis ascii_lib
          (quiet_env\<lparr>chat_create := (\<lambda>k rq. Inl (u ''Connection error.''))\<rparr>)
          (u ''Click the button.'') Map.empty
          (snd (run_content_analysis ascii_lib
                  (quiet_env\<lparr>chat_create := (\<lambda>k rq. Inl (u ''Connection error.''))\<rparr>)
                  (u ''Click the button.'') Map.empty
                  (log_system_message ascii_lib
                     (quiet_env\<lparr>chat_create := (\<lambda>k rq. Inl (u ''Connection error.''))\<rparr>)
                     (u ''Orchestrator: Starting multi-agent review'') fresh_world)))) =
     Failed (u ''Style Guide Enforcer'') (u ''Connection error.'') \<and>
   fst (run_multi_agent_review ascii_lib
          (quiet_env\<lparr>chat_create := (\<lambda>k rq. Inl (u ''Connection error.''))\<rparr>)
          (u ''Click the button.'') Map.empty fresh_world) =
     AgentError (u ''Senior Editor'') (u ''Connection error.'') \<and>
   fst (run_editorial_synthesis ascii_lib
          (quiet_env\<lparr>chat_create := (\<lambda>k rq. Inl (u ''Connection error.''))\<rparr>)
          (u ''Click the button.'') Map.empty
          [Failed (u ''Content Analyzer'') (u ''Connection error.''),
           Failed (u ''Style Guide Enforcer'') (u ''Connection error.''),
           Failed (u ''Link Validator'') (u ''Link validation failed: boom'')]
          fresh_world) =
     AgentError (u ''Senior Editor'') (u ''Connection error.'') \<and>
   fst (run_editorial_synthesis ascii_lib quiet_env (u ''Click the button.'') Map.empty
          [Failed (u ''Content Analyzer'') (u ''Connection error.''),
           Failed (u ''Style Guide Enforcer'') (u ''Connection error.''),
           Failed (u ''Link Validator'') (u ''Link validation failed: boom'')]
          fresh_world) =
     Review (u ''Senior Editor'') (u ''Looks fine.'')
       [Failed (u ''Content Analyzer'') (u ''Connection error.''),
        Failed (u ''Style Guide Enforcer'') (u ''Connection error.''),
        Failed (u ''Link Validator'') (u ''Link validation failed: boom'')] \<and>
   \<not> py_in (u ''Connection error.'') (u ''Looks fine.'') \<and>
   \<not> py_in (u ''Link validation failed: boom'') (u ''Looks fine.'')"
proof -
  let ?E = "quiet_env\<lparr>chat_create := (\<lambda>k rq. Inl (u ''Connection error.''))\<rparr>"
  let ?t = "u ''Click the button.''"
  let ?m = "Map.empty :: ustring \<rightharpoonup> ustring"
  have c: "fst (run_content_analysis ascii_lib ?E ?t ?m w) =
             Failed (u ''Content Analyzer'') (u ''Connection error.'')" for w
    using run_content_analysis_result[of ascii_lib ?E ?t ?m w] by auto
  have s: "fst (run_style_analysis ascii_lib ?E ?t ?m w) =
             Failed (u ''Style Guide Enforcer'') (u ''Connection error.'')" for w
    using run_style_analysis_result[of ascii_lib ?E ?t ?m w] by auto
  from run_multi_agent_review_result[of ascii_lib ?E ?t ?m fresh_world]
  have r: "fst (run_multi_agent_review ascii_lib ?E ?t ?m fresh_world) =
     AgentError (u ''Senior Editor'') (u ''Connection error.'')"
    by auto
  show ?thesis
    unfolding c s r
    by (simp add: run_editorial_synthesis_result quiet_env_def py_in_def u_def sublist_code)
qed

section \<open>The chat of app.py\<close>

subsection \<open>Technical Writer\<close>

definition rewrite_system_prompt :: "ustring option \<Rightarrow> ustring option \<Rightarrow> ustring" where
  "rewrite_system_prompt style_guide content_guide =
     nl @ u ''    You are a Technical Writer Agent specializing in document'' @
     u '' improvement.'' @ nl @ nl @ u ''    Rewriting principles:'' @ nl @
     u ''    1. Apply all style guide standards'' @ nl @
     u ''    2. Fix content quality issues  '' @ nl @
     u ''    3. Maintain technical accuracy'' @ nl @ u ''    4. Preserve author intent'' @ nl @
     u ''    5. Ensure logical flow'' @ nl @ u ''    6. Optimize for user experience'' @ nl @
     nl @ u ''    Style Guide:'' @ nl @ u ''    '' @ slice_or style_guide 800 [] @ nl @
     u ''    '' @ nl @ u ''    Content Rules:'' @ nl @ u ''    '' @
     slice_or content_guide 800 [] @ nl @ u ''    '' @ nl @
     u ''    Create a polished, professional version.'' @ nl @ u ''    ''"

definition rewrite_user_prompt :: "ustring \<Rightarrow> (ustring \<rightharpoonup> ustring) \<Rightarrow> ustring \<Rightarrow> ustring" where
  "rewrite_user_prompt original_text doc_metadata editorial_guidance =
     nl @ u ''    Rewrite this document incorporating editorial feedback:'' @ nl @ u ''    '' @
     nl @ u ''    ORIGINAL:'' @ nl @ u ''    '' @ original_text @ nl @ u ''    '' @ nl @
     u ''    EDITORIAL GUIDANCE:'' @ nl @ u ''    '' @ editorial_guidance @ nl @ u ''    '' @
     nl @ u ''    Document: '' @ dict_get doc_metadata (u ''title'') (u ''Untitled'') @
     u '' ('' @ dict_get doc_metadata (u ''type'') (u ''Unknown'') @ u '')'' @ nl @
     u ''    '' @ nl @ u ''    Provide complete improved version addressing all issues.'' @
     nl @ u ''    ''"

definition run_document_rewrite ::
  "pylib \<Rightarrow> env \<Rightarrow> ustring \<Rightarrow> (ustring \<rightharpoonup> ustring) \<Rightarrow> ustring \<Rightarrow> world \<Rightarrow> result \<times> world" where
  "run_document_rewrite L E original_text doc_metadata editorial_guidance w =
     (let w0 = log_system_message L E (u ''Technical Writer: Starting rewrite'') w;
          (style_guide, w1) = fetch_documentation L E (u ''style_guide'') w0;
          (content_guide, w2) = fetch_documentation L E (u ''content_classification_guide'') w1;
          system_prompt = rewrite_system_prompt style_guide content_guide;
          user_prompt = rewrite_user_prompt original_text doc_metadata editorial_guidance;
          (response, w3) = chat_completion E
             \<lparr>rq_model = u ''gpt-4'',
              rq_messages = [(u ''system'', system_prompt), (u ''user'', user_prompt)],
              rq_max_tokens = 2500, rq_temperature = 0.2\<rparr> w2
      in case response of
           Inr rewritten_draft \<Rightarrow>
             (Improved (u ''Technical Writer'') rewritten_draft,
              log_system_message L E (u ''Technical Writer: Rewrite completed'') w3)
         | Inl e \<Rightarrow>
             (AgentError (u ''Technical Writer'') e,
              log_system_message L E (u ''Technical Writer: Error - '' @ e) w3))"

subsection \<open>Chat Assistant\<close>

text \<open>
  The guides to fetch are chosen by the words of the question, in lower case. The loop over
  them adds to \<open>reference_material\<close> the first 600 characters of each guide that was
  fetched and is not empty.
\<close>

definition docs_to_fetch :: "pylib \<Rightarrow> ustring \<Rightarrow> ustring list" where
  "docs_to_fetch L user_question =
     (if list_ex (\<lambda>word. py_in word (py_lower L user_question))
           [u ''style'', u ''format'', u ''voice'', u ''tense'']
      then [u ''style_guide''] else []) @
     (if list_ex (\<lambda>word. py_in word (py_lower L user_question))
           [u ''content'', u ''clarity'', u ''wordiness'']
      then [u ''content_classification_guide''] else [])"

fun fetch_reference_material ::
  "pylib \<Rightarrow> env \<Rightarrow> ustring list \<Rightarrow> ustring \<Rightarrow> world \<Rightarrow> ustring \<times> world" where
  "fetch_reference_material L E [] reference_material w = (reference_material, w)"
| "fetch_reference_material L E (doc_key # doc_keys) reference_material w =
     (let (content, w1) = fetch_documentation L E doc_key w
      in fetch_reference_material L E doc_keys
           (case content of
              Some c \<Rightarrow>
                if c \<noteq> [] then reference_material @ doc_key @ u '': '' @ take 600 c @ nl @ nl
                else reference_material
            | None \<Rightarrow> reference_material)
           w1)"

definition chat_system_prompt :: "ustring \<Rightarrow> ustring" where
  "chat_system_prompt reference_material =
     nl @ u ''    You are a Chat Assistant Agent for technical writers.'' @ nl @ nl @
     u ''    Expertise:'' @ nl @ u ''    1. Technical writing principles'' @ nl @
     u ''    2. Style guide standards'' @ nl @ u ''    3. Content improvement techniques'' @
     nl @ u ''    4. Documentation processes'' @ nl @ nl @ u ''    Reference Material:'' @ nl @
     u ''    '' @
     (if reference_material \<noteq> [] then reference_material
      else u ''Using general technical writing knowledge'') @
     nl @ u ''    '' @ nl @ u ''    Provide helpful, specific guidance.'' @ nl @ u ''    ''"

definition chat_user_prompt :: "ustring \<Rightarrow> ustring option \<Rightarrow> ustring" where
  "chat_user_prompt user_question context =
     nl @ u ''    User Question: '' @ user_question @ nl @ u ''    '' @ nl @
     u ''    Context: '' @ slice_or context 300 (u ''General inquiry'') @ nl @ u ''    '' @
     nl @ u ''    Provide helpful technical writing guidance.'' @ nl @ u ''    ''"

definition chat_request :: "ustring \<Rightarrow> ustring option \<Rightarrow> ustring \<Rightarrow> llm_request" where
  "chat_request user_question context reference_material =
     \<lparr>rq_model = u ''gpt-4'',
      rq_messages = [(u ''system'', chat_system_prompt reference_material),
                     (u ''user'', chat_user_prompt user_question context)],
      rq_max_tokens = 800, rq_temperature = 0.3\<rparr>"

definition handle_chat_question ::
  "pylib \<Rightarrow> env \<Rightarrow> ustring \<Rightarrow> ustring option \<Rightarrow> world \<Rightarrow> result \<times> world" where
  "handle_chat_question L E user_question context w =
     (let w0 = log_system_message L E (u ''Chat Assistant: Answering question'') w;
          (reference_material, w1) =
             fetch_reference_material L E (docs_to_fetch L user_question) [] w0;
          (response, w2) =
             chat_completion E (chat_request user_question context reference_material) w1
      in case response of
           Inr guidance \<Rightarrow>
             (Guidance (u ''Chat Assistant'') guidance,
              log_system_message L E (u ''Chat Assistant: Response provided'') w2)
         | Inl e \<Rightarrow>
             (AgentError (u ''Chat Assistant'') e,
              log_system_message L E (u ''Chat Assistant: Error - '' @ e) w2))"

subsection \<open>The chat input of \<open>main\<close>\<close>

text \<open>
  What \<open>main\<close> does with a chat input that is not empty: the input is added to the messages
  of the session; it goes to the Technical Writer when it contains one of the rewrite
  keywords, a document is in the text area and \<open>last_review\<close> is in the session state, and to
  the Chat Assistant otherwise, with the first 500 characters of the document as context;
  the answer is added to the messages.
\<close>

definition rewrite_keywords :: "ustring list" where
  "rewrite_keywords =
     [u ''rewrite'', u ''yes, rewrite'', u ''yes please'', u ''go ahead'', u ''yes, go ahead'',
      u ''create new version'', u ''improve draft'']"

definition is_rewrite_request :: "pylib \<Rightarrow> ustring \<Rightarrow> bool" where
  "is_rewrite_request L user_input =
     list_ex (\<lambda>keyword. py_in keyword (py_lower L user_input)) rewrite_keywords"

text \<open>
  The text of the answer. \<open>"error" not in result\<close> selects between the two results an agent
  returns; the other forms of result are returned by neither agent.
\<close>

definition rewrite_response :: "result \<Rightarrow> ustring" where
  "rewrite_response rewrite_result =
     (case rewrite_result of
        Improved agent improved_draft \<Rightarrow>
          u ''## '' @ [226, 339, 239, 184] @ u '' Improved Draft'' @ nl @ nl @ improved_draft @
          nl @ nl @ u ''---'' @ nl @ nl @ u ''### '' @ [240, 376, 8221, 8222] @
          u '' Improvements Applied:'' @ nl @ u ''- Fixed clarity and structure issues'' @ nl @
          u ''- Applied style guide rules (voice, tense, formatting)'' @ nl @
          u ''- Coordinated overall improvements'' @ nl @
          u ''- Rewrote for professional quality'' @ nl @ nl @
          u ''You can copy this improved version or ask for specific adjustments!''
      | AgentError agent e \<Rightarrow> u ''I apologize, but there was an error with the rewrite: '' @ e
      | _ \<Rightarrow> [])"

definition chat_response :: "result \<Rightarrow> ustring" where
  "chat_response chat_result =
     (case chat_result of
        Guidance agent guidance \<Rightarrow>
          u ''## '' @ [240, 376, 8217, 172] @ u '' Assistant Response'' @ nl @ nl @ guidance
      | AgentError agent e \<Rightarrow> u ''I apologize, but there was an error: '' @ e
      | _ \<Rightarrow> [])"

definition main_chat_input :: "pylib \<Rightarrow> env \<Rightarrow> ustring \<Rightarrow> ustring \<Rightarrow> world \<Rightarrow> world" where
  "main_chat_input L E user_input document_text w =
     (if user_input = [] then w
      else
        let w0 = w\<lparr>ss_messages := ss_messages w @ [(u ''user'', user_input)]\<rparr>;
            (response, w1) =
              (case ss_last_review w0 of
                 Some last_review \<Rightarrow>
                   if is_rewrite_request L user_input \<and> document_text \<noteq> [] then
                     let (rewrite_result, w1) =
                           run_document_rewrite L E document_text
                             (case ss_document_metadata w0 of
                                Some metadata \<Rightarrow> metadata | None \<Rightarrow> Map.empty)
                             last_review w0
                     in (rewrite_response rewrite_result, w1)
                   else
                     let (chat_result, w1) =
                           handle_chat_question L E user_input
                             (if document_text \<noteq> [] then Some (take 500 document_text) else None)
                             w0
                     in (chat_response chat_result, w1)
               | None \<Rightarrow>
                   let (chat_result, w1) =
                         handle_chat_question L E user_input
                           (if document_text \<noteq> [] then Some (take 500 document_text) else None)
                           w0
                   in (chat_response chat_result, w1))
        in w1\<lparr>ss_messages := ss_messages w1 @ [(u ''assistant'', response)]\<rparr>)"

section \<open>Properties of the chat\<close>

lemma fetch_from_github_ss_messages:
  "ss_messages (snd (fetch_from_github L E k now w)) = ss_messages w"
  by (simp add: fetch_from_github_def Let_def split: option.splits sum.splits)

lemma fetch_documentation_ss_messages:
  "ss_messages (snd (fetch_documentation L E k w)) = ss_messages w"
  by (simp add: fetch_documentation_def Let_def fetch_from_github_ss_messages split: option.splits)

lemma fetch_reference_material_fields:
  "llm_calls (snd (fetch_reference_material L E ks r w)) = llm_calls w \<and>
   ss_messages (snd (fetch_reference_material L E ks r w)) = ss_messages w"
proof (induction ks arbitrary: r w)
  case Nil
  show ?case by simp
next
  case (Cons k ks)
  obtain c w1 where f: "fetch_documentation L E k w = (c, w1)"
    by (cases "fetch_documentation L E k w")
  have "llm_calls w1 = llm_calls w" "ss_messages w1 = ss_messages w"
    using fetch_documentation_llm_calls[of L E k w] fetch_documentation_ss_messages[of L E k w] f
    by simp_all
  then show ?case using Cons.IH[of _ w1] by (simp add: f)
qed

lemma handle_chat_question_result:
  "\<exists>reference_material.
     fst (handle_chat_question L E q c w) =
       (case chat_create E (length (llm_calls w)) (chat_request q c reference_material) of
          Inr guidance \<Rightarrow> Guidance (u ''Chat Assistant'') guidance
        | Inl e \<Rightarrow> AgentError (u ''Chat Assistant'') e) \<and>
     llm_calls (snd (handle_chat_question L E q c w)) =
       llm_calls w @ [chat_request q c reference_material] \<and>
     ss_messages (snd (handle_chat_question L E q c w)) = ss_messages w"
proof -
  let ?w0 = "log_system_message L E (u ''Chat Assistant: Answering question'') w"
  obtain r w1 where f: "fetch_reference_material L E (docs_to_fetch L q) [] ?w0 = (r, w1)"
    by (cases "fetch_reference_material L E (docs_to_fetch L q) [] ?w0")
  have l: "llm_calls w1 = llm_calls w" "ss_messages w1 = ss_messages w"
    using fetch_reference_material_fields[of L E "docs_to_fetch L q" "[]" ?w0] f by simp_all
  show ?thesis
    by (rule exI[of _ r])
       (simp add: handle_chat_question_def Let_def f chat_completion_def l split: sum.splits)
qed

text \<open>
  Claim C3, as amended. When the chat input contains a rewrite keyword and no review is in
  the session state, the input goes to the Chat Assistant: exactly one completion request
  is issued, the request of the Chat Assistant for this input (800 tokens at most, the input
  as the user's question and the first 500 characters of the document as context), and the
  message added for the assistant is the answer of the language model under the heading
  \<open>Assistant Response\<close>, or the apology with the message of the error when the request fails.
\<close>

theorem rewrite_without_review_asks_chat_assistant:
  assumes "user_input \<noteq> []"
    and "is_rewrite_request L user_input"
    and "ss_last_review w = None"
  shows "\<exists>reference_material rq.
           rq = chat_request user_input
                  (if document_text \<noteq> [] then Some (take 500 document_text) else None)
                  reference_material \<and>
           rq_max_tokens rq = 800 \<and>
           llm_calls (main_chat_input L E user_input document_text w) = llm_calls w @ [rq] \<and>
           ss_messages (main_chat_input L E user_input document_text w) =
             ss_messages w @
             [(u ''user'', user_input),
              (u ''assistant'',
               case chat_create E (length (llm_calls w)) rq of
                 Inr guidance \<Rightarrow>
                   u ''## '' @ [240, 376, 8217, 172] @ u '' Assistant Response'' @ nl @ nl @
                   guidance
               | Inl e \<Rightarrow> u ''I apologize, but there was an error: '' @ e)]"
proof -
  let ?c = "if document_text \<noteq> [] then Some (take 500 document_text) else None"
  let ?w0 = "w\<lparr>ss_messages := ss_messages w @ [(u ''user'', user_input)]\<rparr>"
  obtain res w1 where h: "handle_chat_question L E user_input ?c ?w0 = (res, w1)"
    by (cases "handle_chat_question L E user_input ?c ?w0")
  from handle_chat_question_result[of L E user_input ?c ?w0] h
  obtain r where r:
    "res = (case chat_create E (length (llm_calls w)) (chat_request user_input ?c r) of
          Inr guidance \<Rightarrow> Guidance (u ''Chat Assistant'') guidance
        | Inl e \<Rightarrow> AgentError (u ''Chat Assistant'') e)"
    "llm_calls w1 = llm_calls w @ [chat_request user_input ?c r]"
    "ss_messages w1 = ss_messages w @ [(u ''user'', user_input)]"
    by auto
  have m: "main_chat_input L E user_input document_text w =
           w1\<lparr>ss_messages := ss_messages w1 @ [(u ''assistant'', chat_response res)]\<rparr>"
    using assms h by (simp add: main_chat_input_def Let_def)
  show ?thesis
    apply (rule exI[of _ r])
    apply (rule exI[of _ "chat_request user_input ?c r"])
    apply (simp only: m)
    apply (simp add: r chat_response_def split: sum.splits)
    apply (simp add: chat_request_def)
    done
qed

theorem rewrite_without_review_asks_chat_assistant_witness:
  "is_rewrite_request ascii_lib (u ''Yes please'') \<and>
   ss_last_review fresh_world = None \<and>
   length (llm_calls (main_chat_input ascii_lib quiet_env (u ''Yes please'')
             (u ''Click the button.'') fresh_world)) = 1 \<and>
   rq_max_tokens (hd (llm_calls (main_chat_input ascii_lib quiet_env (u ''Yes please'')
             (u ''Click the button.'') fresh_world))) = 800 \<and>
   snd (rq_messages (hd (llm_calls (main_chat_input ascii_lib quiet_env (u ''Yes please'')
             (u ''Click the button.'') fresh_world))) ! 1) =
     chat_user_prompt (u ''Yes please'') (Some (u ''Click the button.'')) \<and>
   ss_messages (main_chat_input ascii_lib quiet_env (u ''Yes please'')
             (u ''Click the button.'') fresh_world) =
     [(u ''user'', u ''Yes please''),
      (u ''assistant'',
       u ''## '' @ [240, 376, 8217, 172] @ u '' Assistant Response'' @ nl @ nl @
       u ''Looks fine.'')]"
proof -
  have a: "u ''Yes please'' \<noteq> []" by (simp add: u_def)
  have b: "is_rewrite_request ascii_lib (u ''Yes please'')"
    by (simp add: is_rewrite_request_def rewrite_keywords_def ascii_lib_def ascii_lower_def
          py_in_def u_def sublist_code)
  have c: "ss_last_review fresh_world = None" by (simp add: fresh_world_def)
  have d: "(if u ''Click the button.'' \<noteq> [] then Some (take 500 (u ''Click the button.''))
            else None) = Some (u ''Click the button.'')"
    by (simp add: u_def)
  from rewrite_without_review_asks_chat_assistant[OF a b c, of "u ''Click the button.''" quiet_env]
  show ?thesis
    unfolding d using b c
    by (auto simp add: quiet_env_def fresh_world_def chat_request_def)
qed

text \<open>
  The claim as stated promises a message without a completion request. The input
  \<open>rewrite\<close>, with a document in the text area and no review in the session state, issues the
  completion request of the Chat Assistant, and the message shown is the answer of the
  language model; the same happens with no document at all.
\<close>

theorem rewrite_without_review_counterexample:
  "is_rewrite_request ascii_lib (u ''rewrite'') \<and>
   ss_last_review fresh_world = None \<and>
   llm_calls fresh_world = [] \<and>
   llm_calls (main_chat_input ascii_lib quiet_env (u ''rewrite'') (u ''Click the button.'')
                fresh_world) =
     [chat_request (u ''rewrite'') (Some (u ''Click the button.'')) []] \<and>
   ss_messages (main_chat_input ascii_lib quiet_env (u ''rewrite'') (u ''Click the button.'')
                  fresh_world) =
     [(u ''user'', u ''rewrite''),
      (u ''assistant'',
       u ''## '' @ [240, 376, 8217, 172] @ u '' Assistant Response'' @ nl @ nl @
       u ''Looks fine.'')] \<and>
   llm_calls (main_chat_input ascii_lib quiet_env (u ''rewrite'') [] fresh_world) =
     [chat_request (u ''rewrite'') None []]"
proof -
  have a: "u ''rewrite'' \<noteq> []" by (simp add: u_def)
  have b: "is_rewrite_request ascii_lib (u ''rewrite'')"
    by (simp add: is_rewrite_request_def rewrite_keywords_def ascii_lib_def ascii_lower_def
          py_in_def u_def sublist_code)
  have e: "docs_to_fetch ascii_lib (u ''rewrite'') = []"
    by (simp add: docs_to_fetch_def ascii_lib_def ascii_lower_def py_in_def u_def sublist_code)
  have d: "u ''Click the button.'' \<noteq> []" "take 500 (u ''Click the button.'') = u ''Click the button.''"
    by (simp_all add: u_def)
  show ?thesis
    using a b
    by (simp add: main_chat_input_def handle_chat_question_def Let_def e d chat_completion_def
          chat_response_def quiet_env_def fresh_world_def log_system_message_def)
qed

end
